theory Spec2Isabelle
  imports Complex_Main "HOL-Library.Word"
begin

unbundle bit_operations_syntax

section \<open>Machine types of the ATmega328 target\<close>

text \<open>
  The sketch is compiled for an 8-bit AVR: \<open>uint8_t\<close>, \<open>uint16_t\<close> and
  \<open>uint32_t\<close> are words of that width, \<open>int\<close> is a 16-bit and \<open>long\<close> a 32-bit
  two's complement word (read with \<open>sint\<close> where the code compares or shifts signed
  values).  EEPROM addresses and lengths are natural numbers: \<open>EEPROM.length()\<close> is at
  most 4096 on every AVR part, so the \<open>uint16_t\<close> address arithmetic of the sketch
  never wraps.
\<close>

type_synonym u8 = "8 word"
type_synonym u16 = "16 word"
type_synonym u32 = "32 word"

section \<open>The EEPROM\<close>

text \<open>
  The Arduino EEPROM object is not part of the sketch.  It is a byte array read and
  written one cell at a time; \<open>elen\<close> is what \<open>EEPROM.length()\<close> returns and the
  region the sketch scans is the cells below \<open>elen\<close>.  A cell addressed at or beyond
  \<open>elen\<close> is kept apart from the region.
\<close>

record eeprom =
  mem :: "nat \<Rightarrow> u8"
  elen :: nat

definition EEPROM_read :: "eeprom \<Rightarrow> nat \<Rightarrow> u8" where
  "EEPROM_read e a = mem e a"

definition EEPROM_write :: "eeprom \<Rightarrow> nat \<Rightarrow> u8 \<Rightarrow> eeprom" where
  "EEPROM_write e a v = e\<lparr>mem := (mem e)(a := v)\<rparr>"

definition EEPROM_length :: "eeprom \<Rightarrow> nat" where
  "EEPROM_length e = elen e"

section \<open>struct cfg and class CONFIG\<close>

record cfg =
  calibration :: u32
  temp :: u16
  fan :: u8
  off_timeout :: u8

text \<open>\<open>sizeof(struct cfg)\<close>: 4 + 2 + 1 + 1 bytes, no padding on AVR.\<close>

definition sizeof_cfg :: nat where
  "sizeof_cfg = 8"

text \<open>The bytes of a \<open>struct cfg\<close> in memory (little endian), as \<open>(byte *)&Config\<close> reads them.\<close>

definition cfg_bytes :: "cfg \<Rightarrow> u8 list" where
  "cfg_bytes c =
     [ucast (calibration c), ucast (drop_bit 8 (calibration c)),
      ucast (drop_bit 16 (calibration c)), ucast (drop_bit 24 (calibration c)),
      ucast (temp c), ucast (drop_bit 8 (temp c)),
      fan c, off_timeout c]"

text \<open>\<open>memcpy(&Config, &Buff[4], sizeof(struct cfg))\<close>: the struct rebuilt from 8 bytes.\<close>

definition cfg_of_bytes :: "u8 list \<Rightarrow> cfg" where
  "cfg_of_bytes bs =
     \<lparr>calibration = ucast (bs ! 0) OR push_bit 8 (ucast (bs ! 1))
                     OR push_bit 16 (ucast (bs ! 2)) OR push_bit 24 (ucast (bs ! 3)),
      temp = ucast (bs ! 4) OR push_bit 8 (ucast (bs ! 5)),
      fan = bs ! 6,
      off_timeout = bs ! 7\<rparr>"

record CONFIG =
  Config :: cfg
  can_write :: bool
  buffRecords :: u8
  rAddr :: nat
  wAddr :: nat
  eLength :: nat
  nextRecID :: u32
  record_size :: nat

text \<open>
  The constructor's loop \<open>for (record_size = 8; record_size < rs; record_size <<= 1);\<close>
  on a \<open>uint8_t\<close>.  It does not end for \<open>rs > 128\<close> (the size wraps to 0), so the
  model counts iterations and returns \<open>None\<close> when it runs out.
\<close>

fun select_record_size :: "nat \<Rightarrow> u8 \<Rightarrow> u8 \<Rightarrow> u8 option" where
  "select_record_size 0 rsz rs = None"
| "select_record_size (Suc n) rsz rs =
     (if rsz < rs then select_record_size n (push_bit 1 rsz) rs else Some rsz)"

definition CONFIG_new :: "cfg \<Rightarrow> CONFIG option" where
  "CONFIG_new c0 =
     (case select_record_size 8 8 (of_nat sizeof_cfg + 5) of
        None \<Rightarrow> None
      | Some rsz \<Rightarrow>
          Some \<lparr>Config = c0, can_write = False, buffRecords = 0, rAddr = 0, wAddr = 0,
                eLength = 0, nextRecID = 0, record_size = unat rsz\<rparr>)"

subsection \<open>readRecord\<close>

text \<open>The checksum loop \<open>summ <<= 2; summ += b\<close> over a run of bytes, in \<open>uint8_t\<close>.\<close>

fun summ_loop :: "u8 \<Rightarrow> u8 list \<Rightarrow> u8" where
  "summ_loop summ [] = summ"
| "summ_loop summ (b # bs) = summ_loop (push_bit 2 summ + b) bs"

text \<open>\<open>Buff[i] = EEPROM.read(addr + i)\<close> for \<open>i < record_size\<close>.\<close>

definition read_Buff :: "eeprom \<Rightarrow> nat \<Rightarrow> nat \<Rightarrow> u8 list" where
  "read_Buff e addr rsz = map (\<lambda>i. EEPROM_read e (addr + i)) [0..<rsz]"

text \<open>The loop \<open>for (char i = 3; i >= 0; --i) { ts <<= 8; ts |= Buff[i]; }\<close>.\<close>

definition recID_of_Buff :: "u8 list \<Rightarrow> u32" where
  "recID_of_Buff Buff =
     foldl (\<lambda>ts i. push_bit 8 ts OR ucast (Buff ! i)) 0 [3, 2, 1, 0]"

text \<open>
  \<open>readRecord\<close> returns whether the slot at \<open>addr\<close> is valid; when it is, the record
  ID is passed back and \<open>Config\<close> is overwritten with the payload.  The result is
  \<open>None\<close> for an invalid slot, \<open>Some (recID, state)\<close> for a valid one.
\<close>

definition readRecord :: "'a CONFIG_scheme \<Rightarrow> eeprom \<Rightarrow> nat \<Rightarrow> (u32 \<times> 'a CONFIG_scheme) option" where
  "readRecord st e addr =
     (let Buff = read_Buff e addr (record_size st);
          summ = summ_loop 0 (take (sizeof_cfg + 4) Buff) + 1
      in if summ = Buff ! (record_size st - 1)
         then Some (recID_of_Buff Buff,
                    st\<lparr>Config := cfg_of_bytes (take sizeof_cfg (drop 4 Buff))\<rparr>)
         else None)"

subsection \<open>save\<close>

text \<open>The first loop of \<open>save\<close>: the four ID bytes, low byte first.\<close>

fun save_id :: "nat \<Rightarrow> u32 \<Rightarrow> u8 \<times> nat \<times> eeprom \<Rightarrow> u8 \<times> nat \<times> eeprom" where
  "save_id 0 nxt acc = acc"
| "save_id (Suc n) nxt (summ, startWrite, e) =
     save_id n (drop_bit 8 nxt)
       (push_bit 2 summ + ucast nxt, startWrite + 1,
        EEPROM_write e startWrite (ucast (nxt AND 0xff)))"

text \<open>The second loop: the payload bytes \<open>p[i]\<close>.\<close>

fun save_payload :: "u8 list \<Rightarrow> u8 \<times> nat \<times> eeprom \<Rightarrow> u8 \<times> nat \<times> eeprom" where
  "save_payload [] acc = acc"
| "save_payload (b # bs) (summ, startWrite, e) =
     save_payload bs (push_bit 2 summ + b, startWrite + 1, EEPROM_write e startWrite b)"

definition save :: "'a CONFIG_scheme \<Rightarrow> eeprom \<Rightarrow> bool \<times> 'a CONFIG_scheme \<times> eeprom" where
  "save st e =
     (if \<not> can_write st then (can_write st, st, e)
      else
        let st1 = (if nextRecID st = 0 then st\<lparr>nextRecID := 1\<rparr> else st);
            (summ1, sw1, e1) = save_id 4 (nextRecID st1) (0, wAddr st1, e);
            (summ2, sw2, e2) = save_payload (cfg_bytes (Config st1)) (summ1, sw1, e1);
            e3 = EEPROM_write e2 (wAddr st1 + record_size st1 - 1) (summ2 + 1);
            st2 = st1\<lparr>rAddr := wAddr st1\<rparr>;
            st3 = st2\<lparr>wAddr := wAddr st2 + record_size st2\<rparr>;
            st4 = (if wAddr st3 > EEPROM_length e3 then st3\<lparr>wAddr := 0\<rparr> else st3)
        in (True, st4\<lparr>nextRecID := nextRecID st4 + 1\<rparr>, e3))"

subsection \<open>load\<close>

definition load :: "'a CONFIG_scheme \<Rightarrow> eeprom \<Rightarrow> bool \<times> 'a CONFIG_scheme" where
  "load st e =
     (case readRecord st e (rAddr st) of
        Some (recID, st1) \<Rightarrow> (True, st1\<lparr>nextRecID := recID + 1\<rparr>)
      | None \<Rightarrow> (False, st\<lparr>nextRecID := nextRecID st + 1\<rparr>))"

subsection \<open>init\<close>

text \<open>The local variables of \<open>CONFIG::init\<close> that the scan loop updates.\<close>

record scan =
  minRecID :: u32
  minRecAddr :: nat
  maxRecID :: u32
  maxRecAddr :: nat
  records :: u8

text \<open>
  The scan loop \<open>for (addr = 0; addr < eLength; addr += record_size)\<close>, with its
  \<open>break\<close> at the first slot that \<open>readRecord\<close> rejects.  The sketch's record size is
  16; a record size of 0 would never advance, and the model stops there.
\<close>

function init_loop :: "eeprom \<Rightarrow> nat \<Rightarrow> 'a CONFIG_scheme \<times> scan \<Rightarrow> 'a CONFIG_scheme \<times> scan" where
  "init_loop e addr (st, sc) =
     (if addr < eLength st \<and> 0 < record_size st then
        (case readRecord st e addr of
           Some (recID, st1) \<Rightarrow>
             let sc1 = sc\<lparr>records := records sc + 1\<rparr>;
                 sc2 = (if minRecID sc1 > recID
                        then sc1\<lparr>minRecID := recID, minRecAddr := addr\<rparr> else sc1);
                 sc3 = (if maxRecID sc2 < recID
                        then sc2\<lparr>maxRecID := recID, maxRecAddr := addr\<rparr> else sc2)
             in init_loop e (addr + record_size st) (st1\<lparr>record_size := record_size st, eLength := eLength st\<rparr>, sc3)
         | None \<Rightarrow> (st, sc))
      else (st, sc))"
  by pat_completeness auto
termination
  by (relation "measure (\<lambda>(e, addr, st, sc). eLength st - addr)") auto

definition CONFIG_init :: "'a CONFIG_scheme \<Rightarrow> eeprom \<Rightarrow> 'a CONFIG_scheme" where
  "CONFIG_init st0 e =
     (let st = st0\<lparr>eLength := EEPROM_length e, nextRecID := 0\<rparr>;
          sc0 = \<lparr>minRecID = 0xffffffff, minRecAddr = 0, maxRecID = 0, maxRecAddr = 0,
                 records = 0\<rparr>;
          (st1, sc) = init_loop e 0 (st, sc0)
      in if records sc = 0 then st1\<lparr>wAddr := 0, rAddr := 0, can_write := True\<rparr>
         else
           let st2 = st1\<lparr>rAddr := maxRecAddr sc\<rparr>;
               st3 = (if unat (records sc) < eLength st2 div record_size st2
                      then
                        let st4 = st2\<lparr>wAddr := rAddr st2 + record_size st2\<rparr>
                        in if wAddr st4 > eLength st4 then st4\<lparr>wAddr := 0\<rparr> else st4
                      else st2\<lparr>wAddr := minRecAddr sc\<rparr>)
           in st3\<lparr>can_write := True\<rparr>)"

text \<open>Sample values: a zeroed \<open>struct cfg\<close> and an ATmega328 EEPROM (1024 bytes) as erased, every cell \<open>0xff\<close>.\<close>

definition cfg_zero :: cfg where
  "cfg_zero = \<lparr>calibration = 0, temp = 0, fan = 0, off_timeout = 0\<rparr>"

definition erased_eeprom :: eeprom where
  "erased_eeprom = \<lparr>mem = (\<lambda>a. 0xff), elen = 1024\<rparr>"

section \<open>Arduino helpers\<close>

text \<open>
  Modelled from the spec: the Arduino core's \<open>map\<close> and \<open>constrain\<close> are not part of
  the sketch.  \<open>map\<close> is the "integer linear mapping (source range to target range)"
  of the numeric contract, \<open>(x - in_min) * (out_max - out_min) / (in_max - in_min) + out_min\<close>
  on \<open>long\<close> with C's division, which truncates towards zero and is undefined for a
  zero divisor (\<open>None\<close> here).  Every call in the sketch passes 16-bit values and a
  target range of at most 500 or a source offset of at most 501, so the product stays
  below \<open>2^31\<close> and the \<open>long\<close> arithmetic is exact on \<open>int\<close>.
\<close>

definition c_div :: "int \<Rightarrow> int \<Rightarrow> int" where
  "c_div a b = sgn a * sgn b * (\<bar>a\<bar> div \<bar>b\<bar>)"

definition Arduino_map :: "int \<Rightarrow> int \<Rightarrow> int \<Rightarrow> int \<Rightarrow> int \<Rightarrow> int option" where
  "Arduino_map x in_min in_max out_min out_max =
     (if in_max - in_min = 0 then None
      else Some (c_div ((x - in_min) * (out_max - out_min)) (in_max - in_min) + out_min))"

definition constrain :: "'a::linorder \<Rightarrow> 'a \<Rightarrow> 'a \<Rightarrow> 'a" where
  "constrain amt low high = (if amt < low then low else if amt > high then high else amt)"

text \<open>\<open>constrain\<close> on \<open>long\<close> operands: the comparisons are signed.\<close>

definition constrain_long :: "32 word \<Rightarrow> 32 word \<Rightarrow> 32 word \<Rightarrow> 32 word" where
  "constrain_long amt low high = (if amt <s low then low else if high <s amt then high else amt)"

section \<open>class HOTGUN_CFG\<close>

definition temp_minC :: u16 where "temp_minC = 150"
definition temp_maxC :: u16 where "temp_maxC = 500"
definition temp_ambC :: u16 where "temp_ambC = 25"
definition temp_tip :: "u16 list" where "temp_tip = [200, 300, 400]"

definition def_tip :: "u16 list" where "def_tip = [587, 751, 850]"
definition min_temp :: u16 where "min_temp = 50"
definition max_temp :: u16 where "max_temp = 900"
definition def_temp :: u16 where "def_temp = 600"
definition def_fan :: u8 where "def_fan = 64"
definition ambient_temp :: u16 where "ambient_temp = 0"
definition ambient_tempC :: u16 where "ambient_tempC = 25"

text \<open>The array \<open>t_tip[3]\<close> is a function from the index; only 0, 1 and 2 are ever used.\<close>

record HOTGUN_CFG = CONFIG +
  t_tip :: "nat \<Rightarrow> u16"

definition setDefaults :: "HOTGUN_CFG \<Rightarrow> eeprom \<Rightarrow> bool \<Rightarrow> HOTGUN_CFG \<times> eeprom" where
  "setDefaults st e Write =
     (let c0 = ucast ((def_tip ! 2) AND 0x3FF) :: u32;
          c1 = push_bit 10 c0 OR ucast ((def_tip ! 1) AND 0x3FF);
          c2 = push_bit 10 c1 OR ucast ((def_tip ! 0) AND 0x3FF);
          st1 = st\<lparr>Config := (Config st)\<lparr>calibration := c2, temp := def_temp, fan := def_fan\<rparr>\<rparr>
      in if Write then (let (ok, st2, e2) = save st1 e in (st2, e2)) else (st1, e))"

definition HOTGUN_CFG_init :: "HOTGUN_CFG \<Rightarrow> eeprom \<Rightarrow> HOTGUN_CFG \<times> eeprom" where
  "HOTGUN_CFG_init st0 e0 =
     (let st1 = CONFIG_init st0 e0;
          (ok, st2) = load st1 e0;
          (st3, e1) = (if \<not> ok then setDefaults st2 e0 False else (st2, e0));
          cd0 = calibration (Config st3);
          st4 = st3\<lparr>t_tip := (t_tip st3)(0 := ucast (cd0 AND 0x3FF))\<rparr>;
          cd1 = drop_bit 10 cd0;
          st5 = st4\<lparr>t_tip := (t_tip st4)(1 := ucast (cd1 AND 0x3FF))\<rparr>;
          cd2 = drop_bit 10 cd1;
          st6 = st5\<lparr>t_tip := (t_tip st5)(2 := ucast (cd2 AND 0x3FF))\<rparr>
      in if t_tip st6 0 \<ge> t_tip st6 1 \<or> t_tip st6 1 \<ge> t_tip st6 2
         then
           let (st7, e2) = setDefaults st6 e1 False
           in (st7\<lparr>t_tip := (\<lambda>i. if i < 3 then def_tip ! i else t_tip st7 i)\<rparr>, e2)
         else (st6, e1))"

text \<open>\<open>map\<close> called on \<open>uint16_t\<close> arguments, its \<open>long\<close> result stored in a \<open>uint16_t\<close>.\<close>

definition map16 :: "u16 \<Rightarrow> u16 \<Rightarrow> u16 \<Rightarrow> u16 \<Rightarrow> u16 \<Rightarrow> u16 option" where
  "map16 x in_min in_max out_min out_max =
     map_option word_of_int
       (Arduino_map (uint x) (uint in_min) (uint in_max) (uint out_min) (uint out_max))"

definition tempHuman :: "HOTGUN_CFG \<Rightarrow> u16 \<Rightarrow> u16 option" where
  "tempHuman st tmp =
     (if tmp \<le> ambient_temp then Some ambient_tempC
      else if tmp < t_tip st 0 then
        map16 tmp ambient_temp (t_tip st 0) ambient_tempC (temp_tip ! 0)
      else if tmp \<ge> t_tip st 1 then
        map16 tmp (t_tip st 1) (t_tip st 2) (temp_tip ! 1) (temp_tip ! 2)
      else
        map16 tmp (t_tip st 0) (t_tip st 1) (temp_tip ! 0) (temp_tip ! 1))"

text \<open>
  The correction loop of \<open>tempInternal\<close>: at most \<open>n\<close> more rounds, each of which
  stops when \<open>tempHuman\<close> no longer exceeds \<open>t\<close> and decrements otherwise.
\<close>

fun tempInternal_loop :: "nat \<Rightarrow> HOTGUN_CFG \<Rightarrow> u16 \<Rightarrow> u16 \<Rightarrow> u16 option" where
  "tempInternal_loop 0 st t tmp = Some tmp"
| "tempInternal_loop (Suc n) st t tmp =
     (case tempHuman st tmp of
        None \<Rightarrow> None
      | Some tH \<Rightarrow> if tH \<le> t then Some tmp else tempInternal_loop n st t (tmp - 1))"

definition tempInternal :: "HOTGUN_CFG \<Rightarrow> u16 \<Rightarrow> u16 option" where
  "tempInternal st t0 =
     (let t = constrain t0 temp_minC temp_maxC;
          m = (if t \<ge> temp_tip ! 1
               then map16 (t + 1) (temp_tip ! 1) (temp_tip ! 2) (t_tip st 1) (t_tip st 2)
               else map16 (t + 1) (temp_tip ! 0) (temp_tip ! 1) (t_tip st 0) (t_tip st 1))
      in case m of None \<Rightarrow> None | Some tmp \<Rightarrow> tempInternal_loop 10 st t tmp)"

text \<open>
  The three calibration routines take the caller's array \<open>tip\<close> and may change it, so
  the model returns the array with the state.
\<close>

definition applyCalibrationData :: "HOTGUN_CFG \<Rightarrow> (nat \<Rightarrow> u16) \<Rightarrow> HOTGUN_CFG \<times> (nat \<Rightarrow> u16)" where
  "applyCalibrationData st tip =
     (let tip1 = (if tip 0 < ambient_temp
                  then tip(0 := drop_bit 1 (ambient_temp + tip 1)) else tip);
          st1 = st\<lparr>t_tip := (t_tip st)(0 := tip1 0)\<rparr>;
          st2 = st1\<lparr>t_tip := (t_tip st1)(1 := tip1 1)\<rparr>;
          tip2 = (if tip1 2 > max_temp then tip1(2 := max_temp) else tip1);
          st3 = st2\<lparr>t_tip := (t_tip st2)(2 := tip2 2)\<rparr>
      in (st3, tip2))"

definition getCalibrationData :: "HOTGUN_CFG \<Rightarrow> (nat \<Rightarrow> u16) \<Rightarrow> (nat \<Rightarrow> u16)" where
  "getCalibrationData st tip = tip(0 := t_tip st 0, 1 := t_tip st 1, 2 := t_tip st 2)"

definition saveCalibrationData :: "HOTGUN_CFG \<Rightarrow> (nat \<Rightarrow> u16) \<Rightarrow> HOTGUN_CFG \<times> (nat \<Rightarrow> u16)" where
  "saveCalibrationData st tip =
     (let tip1 = (if tip 2 > max_temp then tip(2 := max_temp) else tip);
          cd0 = ucast (tip1 2 AND 0x3FF) :: u32;
          cd1 = push_bit 10 cd0 OR ucast (tip1 1 AND 0x3FF);
          cd2 = push_bit 10 cd1 OR ucast (tip1 0);
          st1 = st\<lparr>Config := (Config st)\<lparr>calibration := cd2\<rparr>\<rparr>;
          st2 = st1\<lparr>t_tip := (t_tip st1)(0 := tip1 0)\<rparr>;
          st3 = st2\<lparr>t_tip := (t_tip st2)(2 := tip1 1)\<rparr>;
          st4 = st3\<lparr>t_tip := (t_tip st3)(2 := tip1 2)\<rparr>
      in (st4, tip1))"

text \<open>The invariant of the data model: the raw references strictly increase.\<close>

definition tips_increasing :: "(nat \<Rightarrow> u16) \<Rightarrow> bool" where
  "tips_increasing t = (t 0 < t 1 \<and> t 1 < t 2)"

text \<open>
  For stating what \<open>init\<close> does with the stored calibration: \<open>unpack_tip cd i\<close> is
  the \<open>i\<close>-th 10-bit field of a calibration word; \<open>cfg_with_defaults c\<close> is \<open>c\<close>
  with the calibration word, the preset temperature and the fan speed set to the
  built-in defaults, as \<open>setDefaults\<close> leaves it; \<open>loaded_cfg st e\<close> is the record
  \<open>init\<close> has in hand when it starts to unpack: the one \<open>load\<close> read from the
  EEPROM at the read address \<open>CONFIG::init\<close> chose, or, when \<open>load\<close> failed,
  \<open>Config\<close> with the defaults put in.
\<close>

definition unpack_tip :: "u32 \<Rightarrow> nat \<Rightarrow> u16" where
  "unpack_tip cd i = ucast (drop_bit (10 * i) cd AND 0x3FF)"

definition cfg_with_defaults :: "cfg \<Rightarrow> cfg" where
  "cfg_with_defaults c =
     c\<lparr>calibration := 587 OR push_bit 10 751 OR push_bit 20 850, temp := 600, fan := 64\<rparr>"

definition loaded_cfg :: "HOTGUN_CFG \<Rightarrow> eeprom \<Rightarrow> cfg" where
  "loaded_cfg st e =
     (if fst (load (CONFIG_init st e) e) then Config (snd (load (CONFIG_init st e) e))
      else cfg_with_defaults (Config (snd (load (CONFIG_init st e) e))))"

section \<open>class HISTORY\<close>

definition H_LENGTH :: u8 where "H_LENGTH = 16"

text \<open>
  \<open>queue[H_LENGTH]\<close> is a function from the index.  The constructor and \<open>init\<close> set
  only \<open>len\<close>; \<open>queue\<close> and \<open>index\<close> keep whatever they held.
\<close>

record HISTORY =
  queue :: "nat \<Rightarrow> u16"
  len :: u8
  index :: u8

definition HISTORY_init :: "HISTORY \<Rightarrow> HISTORY" where
  "HISTORY_init h = h\<lparr>len := 0\<rparr>"

definition put :: "HISTORY \<Rightarrow> u16 \<Rightarrow> HISTORY" where
  "put h item =
     (if len h < H_LENGTH then h\<lparr>queue := (queue h)(unat (len h) := item), len := len h + 1\<rparr>
      else
        let h1 = h\<lparr>queue := (queue h)(unat (index h) := item)\<rparr>;
            h2 = h1\<lparr>index := index h1 + 1\<rparr>
        in if index h2 \<ge> H_LENGTH then h2\<lparr>index := 0\<rparr> else h2)"

definition last_item :: "HISTORY \<Rightarrow> u16" where
  "last_item h =
     (if len h = 0 then 0
      else
        let i = len h - 1;
            i1 = (if index h \<noteq> 0 then index h - 1 else i)
        in queue h (unat i1))"

text \<open>The loop \<open>for (i = 0; i < len; ++i) sum += queue[i]\<close> on a \<open>uint32_t\<close>.\<close>

definition queue_sum :: "HISTORY \<Rightarrow> u32" where
  "queue_sum h = foldl (\<lambda>sum i. sum + ucast (queue h i)) 0 [0..<unat (len h)]"

definition average :: "HISTORY \<Rightarrow> u16" where
  "average h =
     (if len h = 0 then 0
      else if len h = 1 then queue h 0
      else
        let sum = queue_sum h;
            sum1 = sum + ucast (drop_bit 1 (len h));
            sum2 = sum1 div ucast (len h)
        in ucast sum2)"

text \<open>
  The integer part of \<open>dispersion\<close>: \<open>q\<close> is a \<open>long\<close>, \<open>avg\<close> and \<open>sum\<close> are
  \<open>uint32_t\<close>; the subtraction, the square and the sum are taken modulo \<open>2^32\<close>.
\<close>

definition dispersion_sum :: "HISTORY \<Rightarrow> u32" where
  "dispersion_sum h =
     (let avg = ucast (average h) :: u32;
          sum = foldl (\<lambda>sum i. let q = ucast (queue h i) - avg in sum + q * q) 0
                  [0..<unat (len h)]
      in sum + ucast (push_bit 1 (ucast (len h) :: u16)))"

subsection \<open>Single-precision floats\<close>

text \<open>
  \<open>dispersion\<close> returns \<open>(float)sum / (float)len\<close>.  A \<open>float\<close> is an IEEE 754
  binary32 number; the conversion from an integer and the division round to the
  nearest representable value, ties to the even mantissa.  A finite non-negative
  float is kept as a pair \<open>(m, e)\<close> of a mantissa below \<open>2^24 + 1\<close> and an exponent,
  with the value \<open>m * 2^e\<close>.  The operands here are unsigned 32-bit integers and
  their quotients by a byte of at least 3, so neither overflow nor subnormal
  numbers arise.
\<close>

type_synonym f32 = "nat \<times> int"

text \<open>The number of binary digits of \<open>n\<close>.\<close>

fun bit_length :: "nat \<Rightarrow> nat" where
  "bit_length n = (if n = 0 then 0 else Suc (bit_length (n div 2)))"

text \<open>\<open>p / q\<close> rounded to the nearest integer, ties to even.\<close>

definition round_half_even :: "nat \<Rightarrow> nat \<Rightarrow> nat" where
  "round_half_even p q =
     (let m = p div q; r = p mod q
      in if 2 * r < q then m else if q < 2 * r then m + 1 else if even m then m else m + 1)"

text \<open>
  The float nearest to \<open>p / q\<close> (for \<open>q > 0\<close>): \<open>fl\<close> is \<open>\<lfloor>log\<^sub>2 (p / q)\<rfloor>\<close>, and the
  quotient is rounded at the unit \<open>2^(fl - 23)\<close>, which leaves 24 significant bits.
\<close>

definition f32_round_ratio :: "nat \<Rightarrow> nat \<Rightarrow> f32" where
  "f32_round_ratio p q =
     (if p = 0 then (0, 0)
      else
        let d = int (bit_length p) - int (bit_length q);
            fl = (if q * 2 ^ bit_length p \<le> p * 2 ^ bit_length q then d else d - 1);
            s = fl - 23
        in if 0 \<le> s then (round_half_even p (q * 2 ^ nat s), s)
           else (round_half_even (p * 2 ^ nat (- s)) q, s))"

text \<open>\<open>(float)n\<close> for an unsigned integer, float division, and the value of a float.\<close>

definition f32_of_nat :: "nat \<Rightarrow> f32" where
  "f32_of_nat n = f32_round_ratio n 1"

definition f32_div :: "f32 \<Rightarrow> f32 \<Rightarrow> f32" where
  "f32_div a b = (case f32_round_ratio (fst a) (fst b) of (m, e) \<Rightarrow> (m, e + snd a - snd b))"

definition f32_value :: "f32 \<Rightarrow> real" where
  "f32_value f = (if 0 \<le> snd f then real (fst f) * 2 ^ nat (snd f) else real (fst f) / 2 ^ nat (- snd f))"

text \<open>\<open>(float)p / (float)q\<close> for two unsigned integers, as a real number.\<close>

definition f32_quotient :: "nat \<Rightarrow> nat \<Rightarrow> real" where
  "f32_quotient p q = f32_value (f32_div (f32_of_nat p) (f32_of_nat q))"

text \<open>\<open>return 1000\<close> converts the \<open>int\<close> 1000 to the float 1000, exactly.\<close>

definition dispersion :: "HISTORY \<Rightarrow> real" where
  "dispersion h =
     (if len h < 3 then 1000
      else f32_quotient (unat (dispersion_sum h)) (unat (len h)))"

text \<open>A history after \<open>init\<close> and a run of \<open>put\<close> calls.\<close>

definition put_all :: "HISTORY \<Rightarrow> u16 list \<Rightarrow> HISTORY" where
  "put_all h xs = foldl put (HISTORY_init h) xs"

section \<open>class PID\<close>

text \<open>
  \<open>int\<close> members are 16-bit words, \<open>long\<close> members 32-bit words; signed overflow wraps,
  as the AVR instructions do.
\<close>

record PID =
  temp_h0 :: "16 word"
  temp_h1 :: "16 word"
  pid_iterate :: bool
  i_summ :: "32 word"
  power :: "32 word"
  Kp :: "32 word"
  Ki :: "32 word"
  Kd :: "32 word"

definition denominator_p :: nat where "denominator_p = 11"

definition resetPID :: "'a PID_scheme \<Rightarrow> 16 word \<Rightarrow> 'a PID_scheme" where
  "resetPID p t =
     (let p1 = p\<lparr>temp_h0 := 0, power := 0, i_summ := 0, pid_iterate := False\<rparr>
      in if 0 <s t \<and> t <s 1000 then p1\<lparr>temp_h1 := t\<rparr> else p1\<lparr>temp_h1 := 0\<rparr>)"

definition reqPower :: "'a PID_scheme \<Rightarrow> 16 word \<Rightarrow> 16 word \<Rightarrow> 32 word \<times> 'a PID_scheme" where
  "reqPower p tset tcurr =
     (let p1 =
            (if temp_h0 p = 0 then
               let pa = (if (tset - tcurr) <s 30
                         then (if \<not> pid_iterate p
                               then p\<lparr>pid_iterate := True, power := 0, i_summ := 0\<rparr> else p)
                         else p);
                   pb = pa\<lparr>i_summ := i_summ pa + scast (tset - tcurr)\<rparr>
               in pb\<lparr>power := Kp pb * scast (tset - tcurr) + Ki pb * i_summ pb\<rparr>
             else
               let kp = Kp p * scast (temp_h1 p - tcurr);
                   ki = Ki p * scast (tset - tcurr);
                   kd = Kd p * scast (temp_h0 p + tcurr - 2 * temp_h1 p);
                   delta_p = kp + ki + kd
               in p\<lparr>power := power p + delta_p\<rparr>);
          p2 = (if pid_iterate p1 then p1\<lparr>temp_h0 := temp_h1 p1\<rparr> else p1);
          p3 = p2\<lparr>temp_h1 := tcurr\<rparr>;
          pwr = power p3 + push_bit (denominator_p - 1) 1
      in (signed_drop_bit denominator_p pwr, p3))"

section \<open>class HOTGUN\<close>

text \<open>
  \<open>HOTGUN\<close> derives from \<open>PID\<close> and has a \<open>power\<close> member of its own, here
  \<open>HOTGUN_power\<close>; its \<open>fan\<close> flag is \<open>fan_on\<close>.  The two outputs are fields too:
  \<open>gun_out\<close> is the level last written to the heater pin, \<open>fan_duty\<close> the duty last
  given to the fan PWM.
\<close>

record HOTGUN = PID +
  HOTGUN_power :: "32 word"
  temp_set :: u16
  temp_curr :: u16
  fan_speed :: u8
  h_power :: HISTORY
  h_temp :: HISTORY
  cnt :: u8
  actual_power :: u8
  active :: bool
  on :: bool
  fan_on :: bool
  fix_power :: bool
  chill :: bool
  last_period :: u32
  gun_out :: bool
  fan_duty :: u8

definition period :: u8 where "period = 100"
definition min_fan_speed :: u8 where "min_fan_speed = 30"
definition temp_gun_cold :: u16 where "temp_gun_cold = 80"

text \<open>\<open>syncCB\<close> is called at each zero-cross edge; \<open>now\<close> is what \<open>millis()\<close> returns there.\<close>

definition syncCB :: "HOTGUN \<Rightarrow> u32 \<Rightarrow> bool \<times> HOTGUN" where
  "syncCB s now =
     (let s1 = s\<lparr>cnt := cnt s + 1\<rparr>;
          s2 = (if cnt s1 \<ge> period then
                  let s3 = s1\<lparr>cnt := 0, last_period := now\<rparr>
                  in if \<not> active s3 \<and> actual_power s3 > 0
                     then s3\<lparr>gun_out := True, active := True\<rparr> else s3
                else if cnt s1 \<ge> actual_power s1 then
                  (if active s1 then s1\<lparr>gun_out := False, active := False\<rparr> else s1)
                else s1)
      in (cnt s2 = 0, s2))"

text \<open>A run of zero-cross edges: the value returned at each edge, the heater level after it, and the final state.\<close>

fun syncCB_run :: "HOTGUN \<Rightarrow> u32 list \<Rightarrow> (bool \<times> bool) list \<times> HOTGUN" where
  "syncCB_run s [] = ([], s)"
| "syncCB_run s (now # ts) =
     (let (r, s1) = syncCB s now;
          (rs, s2) = syncCB_run s1 ts
      in ((r, gun_out s1) # rs, s2))"

definition switchPower :: "HOTGUN \<Rightarrow> bool \<Rightarrow> HOTGUN" where
  "switchPower s On =
     (let s1 = s\<lparr>on := On\<rparr>
      in if \<not> on s1 then s1\<lparr>gun_out := False, actual_power := 0\<rparr>
         else
           let s2 = (if fan_speed s1 < min_fan_speed then s1\<lparr>fan_speed := min_fan_speed\<rparr> else s1)
           in s2\<lparr>fan_duty := fan_speed s2, fan_on := True\<rparr>)"

text \<open>The fan part of \<open>keepTemp\<close>, reached on every path but the early return.\<close>

definition keep_fan :: "HOTGUN \<Rightarrow> u16 \<Rightarrow> HOTGUN" where
  "keep_fan s tmp =
     (if fan_on s then
        (if actual_power s = 0 \<and> tmp \<le> temp_gun_cold then s\<lparr>fan_duty := 0, fan_on := False\<rparr> else s)
      else
        (if tmp > temp_gun_cold then s\<lparr>fan_duty := fan_speed s, fan_on := True\<rparr> else s))"

text \<open>
  \<open>keepTemp\<close>; \<open>tmp\<close> is the sample \<open>analogRead(sen_pin)\<close> returns.  \<open>temp_set + 20\<close>
  and \<open>temp_set - 8\<close> are \<open>unsigned int\<close> expressions, 16 bits wide on the AVR.
\<close>

definition keepTemp :: "HOTGUN \<Rightarrow> u16 \<Rightarrow> HOTGUN" where
  "keepTemp s0 tmp =
     (let s1 = s0\<lparr>h_temp := put (h_temp s0) tmp\<rparr>;
          s2 = (if \<not> chill s1 \<and> on s1 \<and> tmp > temp_set s1 + 20
                then s1\<lparr>gun_out := False, actual_power := 0, chill := True\<rparr> else s1)
      in if on s2 then
           (if chill s2 \<and> \<not> tmp < temp_set s2 - 8
            then s2\<lparr>HOTGUN_power := 0, actual_power := 0\<rparr>
            else
              let s3 = (if chill s2 then resetPID (s2\<lparr>chill := False\<rparr>) (- 1) else s2);
                  (pwr, s4) = reqPower s3 (temp_set s3) tmp;
                  s5 = s4\<lparr>HOTGUN_power := pwr\<rparr>;
                  s6 = s5\<lparr>actual_power :=
                           ucast (constrain_long (HOTGUN_power s5) 0 (ucast period))\<rparr>;
                  s7 = s6\<lparr>h_power := put (h_power s6) (ucast (actual_power s6))\<rparr>
              in keep_fan s7 tmp)
         else
           keep_fan (if \<not> fix_power s2 then s2\<lparr>actual_power := 0, gun_out := False\<rparr> else s2) tmp)"

section \<open>Sample states and inputs\<close>

text \<open>
  \<open>hgcfg_new\<close> is a \<open>HOTGUN_CFG\<close> object as constructed (a global, so its other
  members start zeroed); \<open>hgcfg_defaults\<close> is the object after \<open>init\<close> on a blank
  EEPROM, holding the built-in defaults.
\<close>

definition hgcfg_new :: HOTGUN_CFG where
  "hgcfg_new =
     \<lparr>Config = cfg_zero, can_write = False, buffRecords = 0, rAddr = 0, wAddr = 0,
      eLength = 0, nextRecID = 0, record_size = 16, t_tip = (\<lambda>i. 0)\<rparr>"

definition hgcfg_defaults :: HOTGUN_CFG where
  "hgcfg_defaults =
     \<lparr>Config = \<lparr>calibration = 0x352bbe4b, temp = 600, fan = 64, off_timeout = 0\<rparr>,
      can_write = True, buffRecords = 0, rAddr = 0, wAddr = 0, eLength = 1024,
      nextRecID = 1, record_size = 16, t_tip = (\<lambda>i. if i < 3 then def_tip ! i else 0)\<rparr>"

text \<open>An array \<open>uint16_t tip[3]\<close> with the given elements.\<close>

definition tip3 :: "u16 \<Rightarrow> u16 \<Rightarrow> u16 \<Rightarrow> nat \<Rightarrow> u16" where
  "tip3 a b c = (\<lambda>i. 0)(0 := a, 1 := b, 2 := c)"

text \<open>The EEPROM with bit \<open>b\<close> of the cell at \<open>a\<close> flipped.\<close>

definition flip_cell :: "eeprom \<Rightarrow> nat \<Rightarrow> nat \<Rightarrow> eeprom" where
  "flip_cell e a b = EEPROM_write e a (flip_bit b (EEPROM_read e a))"

text \<open>The blank EEPROM after the first \<open>save\<close>, and an EEPROM of zero bytes.\<close>

definition saved_once :: eeprom where
  "saved_once = snd (snd (save hgcfg_defaults erased_eeprom))"

definition zero_eeprom :: eeprom where
  "zero_eeprom = \<lparr>mem = (\<lambda>a. 0), elen = 1024\<rparr>"

text \<open>
  The blank EEPROM after one \<open>save\<close> of a record whose calibration word packs the
  raw references \<open>a\<close>, \<open>b\<close>, \<open>c\<close> (preset temperature 700, fan speed 100).
\<close>

definition stored_tips :: "u16 \<Rightarrow> u16 \<Rightarrow> u16 \<Rightarrow> eeprom" where
  "stored_tips a b c =
     snd (snd (save (hgcfg_defaults\<lparr>Config :=
        \<lparr>calibration = ucast a OR push_bit 10 (ucast b) OR push_bit 20 (ucast c),
         temp = 700, fan = 100, off_timeout = 0\<rparr>\<rparr>) erased_eeprom))"

text \<open>
  \<open>hotgun_new\<close> is the global \<open>HOTGUN\<close> object as constructed (the \<open>PID\<close>
  constructor sets the three coefficients, everything else starts zeroed);
  \<open>hotgun_regulating\<close> is the gun initialised, given the setpoint 600 and switched
  on; \<open>hotgun_chilling\<close> is that state after a sample of 621; \<open>hotgun_boundary\<close>
  is the gun with a fixed power of 30 at a cycle boundary, heater on.
\<close>

definition HOTGUN_init :: "HOTGUN \<Rightarrow> HOTGUN" where
  "HOTGUN_init s =
     resetPID
       (s\<lparr>cnt := 0, HOTGUN_power := 0, active := False, on := False, fan_on := False,
          fix_power := False, chill := False, last_period := 0, gun_out := False,
          fan_duty := 0, h_temp := HISTORY_init (h_temp s)\<rparr>) (- 1)"

definition setTemp :: "HOTGUN \<Rightarrow> u16 \<Rightarrow> HOTGUN" where
  "setTemp s t = s\<lparr>temp_set := t\<rparr>"

definition fixPower :: "HOTGUN \<Rightarrow> u8 \<Rightarrow> HOTGUN" where
  "fixPower s Power =
     (if Power = 0 then s\<lparr>fix_power := False, actual_power := 0\<rparr>
      else
        let Power1 = (if Power > period then period else Power);
            s1 = s\<lparr>HOTGUN_power := ucast Power1\<rparr>
        in s1\<lparr>actual_power := ucast (HOTGUN_power s1), fix_power := True\<rparr>)"

definition history_zero :: HISTORY where
  "history_zero = \<lparr>queue = (\<lambda>i. 0), len = 0, index = 0\<rparr>"

definition hotgun_new :: HOTGUN where
  "hotgun_new =
     \<lparr>temp_h0 = 0, temp_h1 = 0, pid_iterate = False, i_summ = 0, power = 0,
      Kp = 638, Ki = 196, Kd = 1,
      HOTGUN_power = 0, temp_set = 0, temp_curr = 0, fan_speed = 0,
      h_power = history_zero, h_temp = history_zero, cnt = 0, actual_power = 0,
      active = False, on = False, fan_on = False, fix_power = False, chill = False,
      last_period = 0, gun_out = False, fan_duty = 0\<rparr>"

definition hotgun_regulating :: HOTGUN where
  "hotgun_regulating = switchPower (setTemp (HOTGUN_init hotgun_new) 600) True"

definition hotgun_chilling :: HOTGUN where
  "hotgun_chilling = keepTemp hotgun_regulating 621"

definition hotgun_boundary :: HOTGUN where
  "hotgun_boundary = (fixPower (HOTGUN_init hotgun_new) 30)\<lparr>active := True, gun_out := True\<rparr>"

text \<open>The times of 100 successive zero-cross edges, 10 ms apart.\<close>

definition edge_times :: "u32 list" where
  "edge_times = map (\<lambda>k. of_nat (10 * k)) [1..<101]"

section \<open>Closed forms for the statistics\<close>

text \<open>
  What the statistics are compared with.  \<open>mean_rounded\<close> is the arithmetic mean
  rounded to the nearest integer (halves up); \<open>biased_sum\<close> is the sum of the
  squared distances from that rounded mean plus \<open>2 * length\<close>, taken modulo
  \<open>2^32\<close>; \<open>biased_dispersion\<close> is the float quotient of \<open>biased_sum\<close> by the
  length; \<open>population_variance\<close> is the population variance around the exact mean.
\<close>

definition mean_rounded :: "u16 list \<Rightarrow> nat" where
  "mean_rounded xs = (sum_list (map unat xs) + length xs div 2) div length xs"

definition biased_sum :: "u16 list \<Rightarrow> nat" where
  "biased_sum xs =
     nat (((\<Sum>x\<leftarrow>xs. (int (unat x) - int (mean_rounded xs))\<^sup>2) + 2 * int (length xs))
            mod 2 ^ 32)"

definition biased_dispersion :: "u16 list \<Rightarrow> real" where
  "biased_dispersion xs = f32_quotient (biased_sum xs) (length xs)"

definition population_variance :: "u16 list \<Rightarrow> real" where
  "population_variance xs =
     (\<Sum>x\<leftarrow>xs. (real (unat x) - (\<Sum>y\<leftarrow>xs. real (unat y)) / real (length xs))\<^sup>2)
       / real (length xs)"

section \<open>Properties\<close>

lemma select_record_size_cfg: "select_record_size 8 8 (of_nat sizeof_cfg + 5) = Some 16"
  by code_simp

text \<open>
  C10: \<open>save\<close> called while \<open>can_write\<close> is still false (the constructor leaves it
  false, and only \<open>init\<close> sets it) returns false, writes nothing to the EEPROM and
  leaves the read address, the write address, the next record ID and every other
  field of the store unchanged.
\<close>

theorem save_before_init:
  "(CONFIG_new c0 = Some st \<longrightarrow> \<not> can_write st) \<and>
   (\<not> can_write st \<longrightarrow> save st e = (False, st, e))"
  by (auto simp: save_def CONFIG_new_def split: option.splits)

theorem save_before_init_witness:
  "CONFIG_new cfg_zero =
     Some \<lparr>Config = cfg_zero, can_write = False, buffRecords = 0, rAddr = 0, wAddr = 0,
           eLength = 0, nextRecID = 0, record_size = 16\<rparr> \<and>
   save \<lparr>Config = cfg_zero, can_write = False, buffRecords = 0, rAddr = 0, wAddr = 0,
           eLength = 0, nextRecID = 0, record_size = 16\<rparr> erased_eeprom =
     (False, \<lparr>Config = cfg_zero, can_write = False, buffRecords = 0, rAddr = 0, wAddr = 0,
           eLength = 0, nextRecID = 0, record_size = 16\<rparr>, erased_eeprom)"
  using save_before_init [of cfg_zero "\<lparr>Config = cfg_zero, can_write = False, buffRecords = 0,
           rAddr = 0, wAddr = 0, eLength = 0, nextRecID = 0, record_size = 16\<rparr>" erased_eeprom]
  by (simp add: CONFIG_new_def select_record_size_cfg)


subsection \<open>The sample state is the one \<open>init\<close> produces\<close>

lemma readRecord_None_iff:
  "record_size st = record_size st' \<Longrightarrow>
   (readRecord st e a = None) = (readRecord st' e a = None)"
  by (simp add: readRecord_def Let_def)

lemma erased_slot_invalid: "readRecord hgcfg_new erased_eeprom 0 = None"
  by code_simp

lemma HOTGUN_CFG_init_blank:
  "HOTGUN_CFG_init hgcfg_new erased_eeprom = (hgcfg_defaults, erased_eeprom)"
proof -
  have rr: "readRecord (hgcfg_new\<lparr>eLength := 1024, nextRecID := 0\<rparr>) erased_eeprom 0 = None"
    using erased_slot_invalid
      readRecord_None_iff [of "hgcfg_new\<lparr>eLength := 1024, nextRecID := 0\<rparr>" hgcfg_new erased_eeprom 0]
    by simp
  have ci: "CONFIG_init hgcfg_new erased_eeprom = hgcfg_new\<lparr>eLength := 1024, can_write := True\<rparr>"
    using rr
    by (simp add: CONFIG_init_def Let_def EEPROM_length_def erased_eeprom_def hgcfg_new_def)
  have ld: "readRecord (hgcfg_new\<lparr>eLength := 1024, can_write := True\<rparr>) erased_eeprom 0 = None"
    using erased_slot_invalid
      readRecord_None_iff [of "hgcfg_new\<lparr>eLength := 1024, can_write := True\<rparr>" hgcfg_new erased_eeprom 0]
    by simp
  show ?thesis
    unfolding HOTGUN_CFG_init_def ci
    using ld
    by (auto simp: load_def Let_def setDefaults_def def_tip_def nth_Cons'
        def_temp_def def_fan_def hgcfg_new_def hgcfg_defaults_def cfg_zero_def fun_eq_iff)
qed

subsection \<open>The checksum\<close>

lemma upt16: "[0..<16] = [0, 1, 2, 3, 4, 5, 6, 7, 8, 9, 10, 11, 12, 13, 14, 15]"
  by (simp add: upt_rec)

lemma read_Buff_16:
  "read_Buff e a 16 = [EEPROM_read e a, EEPROM_read e (a + 1), EEPROM_read e (a + 2),
     EEPROM_read e (a + 3), EEPROM_read e (a + 4), EEPROM_read e (a + 5), EEPROM_read e (a + 6),
     EEPROM_read e (a + 7), EEPROM_read e (a + 8), EEPROM_read e (a + 9), EEPROM_read e (a + 10),
     EEPROM_read e (a + 11), EEPROM_read e (a + 12), EEPROM_read e (a + 13), EEPROM_read e (a + 14),
     EEPROM_read e (a + 15)]"
  by (simp add: read_Buff_def upt16)

lemma length_read_Buff: "length (read_Buff e a n) = n"
  by (simp add: read_Buff_def)

text \<open>Only the last four of the twelve bytes reach the 8-bit sum; the others are shifted out.\<close>

lemma summ12:
  "summ_loop 0 [b0, b1, b2, b3, b4, b5, b6, b7, b8, b9, b10, b11] =
     push_bit 6 b8 + push_bit 4 b9 + push_bit 2 b10 + b11"
  by (simp add: push_bit_add)

lemma push_flip:
  "push_bit n (flip_bit b (x :: u8)) = push_bit n x \<longleftrightarrow> 8 \<le> n + b"
proof
  assume eq: "push_bit n (flip_bit b x) = push_bit n x"
  show "8 \<le> n + b"
  proof (rule ccontr)
    assume "\<not> 8 \<le> n + b"
    then have lt: "n + b < 8" by simp
    from eq have "bit (push_bit n (flip_bit b x)) (n + b) = bit (push_bit n x) (n + b)" by simp
    with lt show False by (simp add: bit_push_bit_iff bit_flip_bit_iff)
  qed
next
  assume "8 \<le> n + b"
  then show "push_bit n (flip_bit b x) = push_bit n x"
    by (intro bit_eqI) (auto simp: bit_push_bit_iff bit_flip_bit_iff)
qed

lemma flip_id: "flip_bit b (x :: u8) = x \<longleftrightarrow> 8 \<le> b"
  using push_flip [of 0 b x] by simp

lemma flipped_Buff:
  "i < 16 \<Longrightarrow>
   read_Buff (flip_cell e (a + i) b) a 16 = (read_Buff e a 16)[i := flip_bit b (read_Buff e a 16 ! i)]"
  by (auto simp: read_Buff_def flip_cell_def EEPROM_read_def EEPROM_write_def
      list_eq_iff_nth_eq nth_list_update)

lemma summ_flip:
  assumes "i < 12"
  shows "summ_loop 0 (take 12 ([c0, c1, c2, c3, c4, c5, c6, c7, c8, c9, c10, c11, c12, c13, c14, c15]
            [i := flip_bit b ([c0, c1, c2, c3, c4, c5, c6, c7, c8, c9, c10, c11, c12, c13, c14, c15] ! i)]))
         = summ_loop 0 (take 12 [c0, c1, c2, c3, c4, c5, c6, c7, c8, c9, c10, c11, c12, c13, c14, c15])
       \<longleftrightarrow> 8 \<le> 2 * (11 - i) + b"
proof -
  have "[0..<12] = [0, 1, 2, 3, 4, 5, 6, 7, 8, 9, 10, 11]"
    by (simp add: upt_rec)
  moreover have "i \<in> set [0..<12]"
    using assms by simp
  ultimately have "i \<in> set [0, 1, 2, 3, 4, 5, 6, 7, 8, 9, 10, 11]"
    by simp
  then show ?thesis
    by (auto simp add: summ12 push_flip flip_id simp del: summ_loop.simps)
qed

text \<open>
  C5 (amended): in a slot that \<open>readRecord\<close> accepts, flipping bit \<open>b\<close> of byte
  \<open>i\<close> (of the 4 ID bytes and 8 payload bytes, \<open>i < 12\<close>) makes \<open>readRecord\<close>
  reject the slot exactly when \<open>2 * (11 - i) + b < 8\<close>: every bit of the last payload
  byte, bits 0 to 5 of byte 10, bits 0 to 3 of byte 9 and bits 0 and 1 of byte 8.  A
  flip anywhere else (all of the ID and the first four payload bytes among them) is
  shifted out of the 8-bit sum and the slot still validates.  A slot of zero bytes
  never validates.
\<close>

theorem checksum_single_bit_flip:
  "record_size st = 16 \<longrightarrow>
     (readRecord st e addr \<noteq> None \<and> i < 12 \<and> b < 8 \<longrightarrow>
        (readRecord st (flip_cell e (addr + i) b) addr = None) = (2 * (11 - i) + b < 8)) \<and>
     ((\<forall>j<16. EEPROM_read z (zaddr + j) = 0) \<longrightarrow> readRecord st z zaddr = None)"
proof (intro impI conjI)
  assume rs: "record_size st = 16"
  assume h: "readRecord st e addr \<noteq> None \<and> i < 12 \<and> b < 8"
  then have i: "i < 12" and i16: "i < 16" by simp_all
  have valid: "summ_loop 0 (take 12 (read_Buff e addr 16)) + 1 = read_Buff e addr 16 ! 15"
    using h rs by (simp add: readRecord_def Let_def sizeof_cfg_def split: if_splits)
  have "(readRecord st (flip_cell e (addr + i) b) addr = None) =
        (summ_loop 0 (take 12 ((read_Buff e addr 16)[i := flip_bit b (read_Buff e addr 16 ! i)])) + 1
           \<noteq> read_Buff e addr 16 ! 15)"
    using i rs
    by (simp add: readRecord_def Let_def sizeof_cfg_def flipped_Buff [OF i16]
        length_read_Buff)
  also have "\<dots> =
        (summ_loop 0 (take 12 ((read_Buff e addr 16)[i := flip_bit b (read_Buff e addr 16 ! i)]))
           \<noteq> summ_loop 0 (take 12 (read_Buff e addr 16)))"
    by (simp add: valid [symmetric])
  also have "\<dots> = (\<not> 8 \<le> 2 * (11 - i) + b)"
    by (simp only: read_Buff_16 summ_flip [OF i])
  finally show "(readRecord st (flip_cell e (addr + i) b) addr = None) = (2 * (11 - i) + b < 8)"
    by (simp add: not_le)
next
  assume rs: "record_size st = 16"
  assume z: "\<forall>j<16. EEPROM_read z (zaddr + j) = 0"
  have "EEPROM_read z zaddr = 0" using z [rule_format, of 0] by simp
  then show "readRecord st z zaddr = None"
    using z rs by (simp add: readRecord_def Let_def sizeof_cfg_def read_Buff_16)
qed

lemma saved_once_valid: "map_option fst (readRecord hgcfg_defaults saved_once 0) = Some 1"
  by code_simp

lemma saved_once_flip_last: "readRecord hgcfg_defaults (flip_cell saved_once 11 0) 0 = None"
  by code_simp

theorem checksum_single_bit_flip_witness:
  "record_size hgcfg_defaults = 16 \<and>
   readRecord hgcfg_defaults saved_once 0 \<noteq> None \<and>
   readRecord hgcfg_defaults (flip_cell saved_once (0 + 11) 0) 0 = None \<and>
   readRecord hgcfg_defaults zero_eeprom 0 = None"
proof -
  have rs: "record_size hgcfg_defaults = 16" by (simp add: hgcfg_defaults_def)
  have v: "readRecord hgcfg_defaults saved_once 0 \<noteq> None"
    using saved_once_valid by auto
  have z: "\<forall>j<16. EEPROM_read zero_eeprom (0 + j) = 0"
    by (simp add: EEPROM_read_def zero_eeprom_def)
  show ?thesis
    using checksum_single_bit_flip [of hgcfg_defaults saved_once 0 11 0 zero_eeprom 0] rs v z
    by simp
qed

text \<open>
  C5 as stated fails: the slot written by \<open>save\<close> holds record ID 1; with the lowest
  bit of its first ID byte flipped it still validates, now as record ID 0.
\<close>

theorem checksum_single_bit_flip_counterexample:
  "map_option fst (readRecord hgcfg_defaults saved_once 0) = Some 1 \<and>
   map_option fst (readRecord hgcfg_defaults (flip_cell saved_once 0 0) 0) = Some 0"
  by code_simp

subsection \<open>Calibration data\<close>

text \<open>
  C7 (the code departs from the claim): after \<open>saveCalibrationData\<close> with the triple
  500, 600, 700 on the default state, the calibration word of \<open>Config\<close> packs the
  triple, 10 bits each, \<open>tip[0]\<close> lowest; but \<open>getCalibrationData\<close> returns 500, 751,
  700: \<open>t_tip[1]\<close> still holds the old mid reference, because the routine assigns
  \<open>t_tip[2]\<close> twice.
\<close>

theorem saveCalibrationData_stale_mid:
  "(case saveCalibrationData hgcfg_defaults (tip3 500 600 700) of
      (st, tip) \<Rightarrow>
        calibration (Config st) = 500 OR push_bit 10 600 OR push_bit 20 700 \<and>
        map (getCalibrationData st (\<lambda>i. 0)) [0, 1, 2] = [500, 751, 700])"
  by (simp add: saveCalibrationData_def hgcfg_defaults_def tip3_def max_temp_def
      getCalibrationData_def def_tip_def)

lemma setDefaults_Config:
  "Config (fst (setDefaults st e False)) = cfg_with_defaults (Config st)"
  by (simp add: setDefaults_def cfg_with_defaults_def Let_def def_tip_def def_temp_def def_fan_def)

lemma setDefaults_t_tip: "t_tip (fst (setDefaults st e False)) = t_tip st"
  by (simp add: setDefaults_def Let_def)

lemma init_kept_or_replaced:
  "(if tips_increasing (unpack_tip (calibration (loaded_cfg st e)))
    then Config (fst (HOTGUN_CFG_init st e)) = loaded_cfg st e \<and>
         map (t_tip (fst (HOTGUN_CFG_init st e))) [0, 1, 2] =
           map (unpack_tip (calibration (loaded_cfg st e))) [0, 1, 2]
    else Config (fst (HOTGUN_CFG_init st e)) = cfg_with_defaults (loaded_cfg st e) \<and>
         map (t_tip (fst (HOTGUN_CFG_init st e))) [0, 1, 2] = [587, 751, 850])"
  by (auto simp: HOTGUN_CFG_init_def Let_def split_beta loaded_cfg_def setDefaults_Config
      setDefaults_t_tip unpack_tip_def tips_increasing_def def_tip_def drop_bit_drop_bit not_le)

lemma loaded_examples:
  "loaded_cfg hgcfg_new (stored_tips 500 600 700) =
     \<lparr>calibration = 500 OR push_bit 10 600 OR push_bit 20 700, temp = 700, fan = 100,
      off_timeout = 0\<rparr> \<and>
   loaded_cfg hgcfg_new (stored_tips 700 600 500) =
     \<lparr>calibration = 700 OR push_bit 10 600 OR push_bit 20 500, temp = 700, fan = 100,
      off_timeout = 0\<rparr>"
  by code_simp

text \<open>
  C8 (amended): after \<open>HOTGUN_CFG::init\<close>, whatever the EEPROM and the object held,
  the raw references strictly increase and are the three 10-bit fields of the
  calibration word in \<open>Config\<close>.  If the three fields of the loaded record (the one
  \<open>load\<close> read from the EEPROM, or the defaults when \<open>load\<close> failed) strictly
  increase, the loaded record is kept as \<open>Config\<close> and its fields become the
  references; if they do not, the references become 587, 751, 850 and \<open>Config\<close>
  gets the default calibration word, preset temperature and fan speed.
  \<open>applyCalibrationData\<close> leaves the references strictly increasing when it is given
  a strictly increasing triple whose mid value is below the cap of 900; the routine
  itself does not check the order.
\<close>

theorem tips_increasing_init_apply:
  "tips_increasing (t_tip (fst (HOTGUN_CFG_init st e))) \<and>
   t_tip (fst (HOTGUN_CFG_init st e)) 0 =
     ucast (calibration (Config (fst (HOTGUN_CFG_init st e))) AND 0x3FF) \<and>
   t_tip (fst (HOTGUN_CFG_init st e)) 1 =
     ucast (drop_bit 10 (calibration (Config (fst (HOTGUN_CFG_init st e)))) AND 0x3FF) \<and>
   t_tip (fst (HOTGUN_CFG_init st e)) 2 =
     ucast (drop_bit 20 (calibration (Config (fst (HOTGUN_CFG_init st e)))) AND 0x3FF) \<and>
   (if tips_increasing (unpack_tip (calibration (loaded_cfg st e)))
    then Config (fst (HOTGUN_CFG_init st e)) = loaded_cfg st e \<and>
         map (t_tip (fst (HOTGUN_CFG_init st e))) [0, 1, 2] =
           map (unpack_tip (calibration (loaded_cfg st e))) [0, 1, 2]
    else Config (fst (HOTGUN_CFG_init st e)) = cfg_with_defaults (loaded_cfg st e) \<and>
         map (t_tip (fst (HOTGUN_CFG_init st e))) [0, 1, 2] = [587, 751, 850]) \<and>
   (tips_increasing tip \<and> tip 1 < max_temp \<longrightarrow>
      tips_increasing (t_tip (fst (applyCalibrationData st tip))))"
proof (intro conjI impI)
  show "tips_increasing (t_tip (fst (HOTGUN_CFG_init st e)))"
    by (auto simp: HOTGUN_CFG_init_def Let_def tips_increasing_def setDefaults_def def_tip_def
        split: prod.splits if_splits)
next
  show "t_tip (fst (HOTGUN_CFG_init st e)) 0 =
     ucast (calibration (Config (fst (HOTGUN_CFG_init st e))) AND 0x3FF)"
    by (auto simp: HOTGUN_CFG_init_def Let_def setDefaults_def def_tip_def
        split: prod.splits if_splits)
next
  show "t_tip (fst (HOTGUN_CFG_init st e)) 1 =
     ucast (drop_bit 10 (calibration (Config (fst (HOTGUN_CFG_init st e)))) AND 0x3FF)"
    by (auto simp: HOTGUN_CFG_init_def Let_def setDefaults_def def_tip_def
        split: prod.splits if_splits)
next
  show "t_tip (fst (HOTGUN_CFG_init st e)) 2 =
     ucast (drop_bit 20 (calibration (Config (fst (HOTGUN_CFG_init st e)))) AND 0x3FF)"
    by (auto simp: HOTGUN_CFG_init_def Let_def setDefaults_def def_tip_def drop_bit_drop_bit
        split: prod.splits if_splits)
next
  show "if tips_increasing (unpack_tip (calibration (loaded_cfg st e)))
    then Config (fst (HOTGUN_CFG_init st e)) = loaded_cfg st e \<and>
         map (t_tip (fst (HOTGUN_CFG_init st e))) [0, 1, 2] =
           map (unpack_tip (calibration (loaded_cfg st e))) [0, 1, 2]
    else Config (fst (HOTGUN_CFG_init st e)) = cfg_with_defaults (loaded_cfg st e) \<and>
         map (t_tip (fst (HOTGUN_CFG_init st e))) [0, 1, 2] = [587, 751, 850]"
    by (rule init_kept_or_replaced)
next
  assume "tips_increasing tip \<and> tip 1 < max_temp"
  then show "tips_increasing (t_tip (fst (applyCalibrationData st tip)))"
    by (auto simp: applyCalibrationData_def Let_def tips_increasing_def ambient_temp_def
        max_temp_def)
qed

theorem tips_increasing_init_apply_witness:
  "tips_increasing (tip3 500 600 700) \<and> tip3 500 600 700 1 < max_temp \<and>
   tips_increasing (t_tip (fst (applyCalibrationData hgcfg_defaults (tip3 500 600 700)))) \<and>
   tips_increasing (t_tip (fst (HOTGUN_CFG_init hgcfg_defaults saved_once))) \<and>
   map (t_tip (fst (HOTGUN_CFG_init hgcfg_new (stored_tips 500 600 700)))) [0, 1, 2] =
     [500, 600, 700] \<and>
   temp (Config (fst (HOTGUN_CFG_init hgcfg_new (stored_tips 500 600 700)))) = 700 \<and>
   map (t_tip (fst (HOTGUN_CFG_init hgcfg_new (stored_tips 700 600 500)))) [0, 1, 2] =
     [587, 751, 850] \<and>
   Config (fst (HOTGUN_CFG_init hgcfg_new (stored_tips 700 600 500))) =
     \<lparr>calibration = 0x352bbe4b, temp = 600, fan = 64, off_timeout = 0\<rparr>"
proof -
  have h: "tips_increasing (tip3 500 600 700) \<and> tip3 500 600 700 1 < max_temp"
    by (simp add: tip3_def tips_increasing_def max_temp_def)
  have a: "tips_increasing (t_tip (fst (applyCalibrationData hgcfg_defaults (tip3 500 600 700)))) \<and>
      tips_increasing (t_tip (fst (HOTGUN_CFG_init hgcfg_defaults saved_once)))"
    using tips_increasing_init_apply [of hgcfg_defaults saved_once "tip3 500 600 700"] h
    by blast
  have good: "tips_increasing (unpack_tip (500 OR push_bit 10 600 OR push_bit 20 700))"
    "map (unpack_tip (500 OR push_bit 10 600 OR push_bit 20 700)) [0, 1, 2] = [500, 600, 700]"
    by (simp_all add: unpack_tip_def tips_increasing_def)
  have bad: "\<not> tips_increasing (unpack_tip (700 OR push_bit 10 600 OR push_bit 20 500))"
    by (simp add: unpack_tip_def tips_increasing_def)
  have b: "map (t_tip (fst (HOTGUN_CFG_init hgcfg_new (stored_tips 500 600 700)))) [0, 1, 2] =
        [500, 600, 700] \<and>
      temp (Config (fst (HOTGUN_CFG_init hgcfg_new (stored_tips 500 600 700)))) = 700"
    using tips_increasing_init_apply [of hgcfg_new "stored_tips 500 600 700" "tip3 500 600 700"]
      loaded_examples good
    by simp
  have c: "map (t_tip (fst (HOTGUN_CFG_init hgcfg_new (stored_tips 700 600 500)))) [0, 1, 2] =
        [587, 751, 850] \<and>
      Config (fst (HOTGUN_CFG_init hgcfg_new (stored_tips 700 600 500))) =
        \<lparr>calibration = 0x352bbe4b, temp = 600, fan = 64, off_timeout = 0\<rparr>"
    using tips_increasing_init_apply [of hgcfg_new "stored_tips 700 600 500" "tip3 500 600 700"]
      loaded_examples bad
    by (simp add: cfg_with_defaults_def)
  show ?thesis
    using h a b c by blast
qed

text \<open>
  C8 as stated fails: \<open>applyCalibrationData\<close> on the default state with the strictly
  increasing triple 901, 950, 1000 caps the high value at 900 and leaves 901, 950, 900.
\<close>

theorem tips_increasing_counterexample:
  "tips_increasing (t_tip hgcfg_defaults) \<and> tips_increasing (tip3 901 950 1000) \<and>
   \<not> tips_increasing (t_tip (fst (applyCalibrationData hgcfg_defaults (tip3 901 950 1000))))"
  by (simp add: applyCalibrationData_def hgcfg_defaults_def tip3_def max_temp_def
      ambient_temp_def def_tip_def tips_increasing_def)

subsection \<open>The zero-cross handler\<close>

lemma syncCB_run_append:
  "syncCB_run s (xs @ ys) =
     (fst (syncCB_run s xs) @ fst (syncCB_run (snd (syncCB_run s xs)) ys),
      snd (syncCB_run (snd (syncCB_run s xs)) ys))"
  by (induction xs arbitrary: s) (simp_all add: split_beta Let_def)

lemma syncCB_on_phase:
  assumes "unat (cnt s) + 1 < 30" "actual_power s = 30"
  shows "syncCB s now = (False, s\<lparr>cnt := cnt s + 1\<rparr>)"
proof -
  have u: "unat (cnt s + 1) = unat (cnt s) + 1"
    using assms(1) by (simp add: unat_word_ariths)
  have "\<not> cnt s + 1 \<ge> period" "\<not> cnt s + 1 \<ge> 30"
    using assms(1) u by (simp_all add: word_le_nat_alt period_def)
  moreover have "cnt s + 1 \<noteq> 0"
    using u by force
  ultimately show ?thesis
    using assms(2) by (simp add: syncCB_def Let_def)
qed

lemma syncCB_switch_off:
  assumes c: "cnt s = 29" and "actual_power s = 30" "active s"
  shows "syncCB s now = (False, s\<lparr>cnt := 30, gun_out := False, active := False\<rparr>)"
proof -
  show ?thesis
    using assms(2,3) by (simp add: syncCB_def Let_def c period_def)
qed

lemma syncCB_off_phase:
  assumes "30 \<le> unat (cnt s)" "unat (cnt s) + 1 < 100" "actual_power s = 30" "\<not> active s"
  shows "syncCB s now = (False, s\<lparr>cnt := cnt s + 1\<rparr>)"
proof -
  have u: "unat (cnt s + 1) = unat (cnt s) + 1"
    using assms(2) by (simp add: unat_word_ariths)
  have "\<not> cnt s + 1 \<ge> period" "cnt s + 1 \<ge> 30"
    using assms(1,2) u by (simp_all add: word_le_nat_alt period_def)
  moreover have "cnt s + 1 \<noteq> 0"
    using u by force
  ultimately show ?thesis
    using assms(3,4) by (simp add: syncCB_def Let_def)
qed

lemma syncCB_wrap:
  assumes c: "cnt s = 99" and "actual_power s = 30" "\<not> active s"
  shows "syncCB s now = (True, s\<lparr>cnt := 0, last_period := now, gun_out := True, active := True\<rparr>)"
proof -
  show ?thesis
    using assms(2,3) by (simp add: syncCB_def Let_def c period_def)
qed

lemma run_on_phase:
  "unat (cnt s) + length ts < 30 \<Longrightarrow> actual_power s = 30 \<Longrightarrow>
   syncCB_run s ts = (replicate (length ts) (False, gun_out s), s\<lparr>cnt := cnt s + of_nat (length ts)\<rparr>)"
proof (induction ts arbitrary: s)
  case Nil
  then show ?case by simp
next
  case (Cons t ts)
  have st: "syncCB s t = (False, s\<lparr>cnt := cnt s + 1\<rparr>)"
    using Cons.prems by (intro syncCB_on_phase) simp_all
  have u: "unat (cnt s + 1) = unat (cnt s) + 1"
    using Cons.prems(1) by (simp add: unat_word_ariths)
  have "syncCB_run (s\<lparr>cnt := cnt s + 1\<rparr>) ts =
     (replicate (length ts) (False, gun_out (s\<lparr>cnt := cnt s + 1\<rparr>)),
      s\<lparr>cnt := cnt s + 1\<rparr>\<lparr>cnt := cnt (s\<lparr>cnt := cnt s + 1\<rparr>) + of_nat (length ts)\<rparr>)"
    using Cons.prems u by (intro Cons.IH) simp_all
  then show ?case
    by (simp add: st add.assoc add.commute)
qed

lemma run_off_phase:
  "30 \<le> unat (cnt s) \<Longrightarrow> unat (cnt s) + length ts < 100 \<Longrightarrow> actual_power s = 30 \<Longrightarrow> \<not> active s \<Longrightarrow>
   syncCB_run s ts = (replicate (length ts) (False, gun_out s), s\<lparr>cnt := cnt s + of_nat (length ts)\<rparr>)"
proof (induction ts arbitrary: s)
  case Nil
  then show ?case by simp
next
  case (Cons t ts)
  have st: "syncCB s t = (False, s\<lparr>cnt := cnt s + 1\<rparr>)"
    using Cons.prems by (intro syncCB_off_phase) simp_all
  have u: "unat (cnt s + 1) = unat (cnt s) + 1"
    using Cons.prems(2) by (simp add: unat_word_ariths)
  have "syncCB_run (s\<lparr>cnt := cnt s + 1\<rparr>) ts =
     (replicate (length ts) (False, gun_out (s\<lparr>cnt := cnt s + 1\<rparr>)),
      s\<lparr>cnt := cnt s + 1\<rparr>\<lparr>cnt := cnt (s\<lparr>cnt := cnt s + 1\<rparr>) + of_nat (length ts)\<rparr>)"
    using Cons.prems u by (intro Cons.IH) simp_all
  then show ?case
    by (simp add: st add.assoc add.commute)
qed


text \<open>
  C2: with \<open>period = 100\<close> and \<open>actual_power\<close> held at 30, start right after a
  wraparound edge (tick counter 0, heater on) and pass 100 zero-cross edges to
  \<open>syncCB\<close>.  The heater stays on through the next 29 edges (30 ticks on, counting
  from the wraparound), is turned off at the edge where the counter reaches 30, stays
  off for 70 edges, and is turned on again at the 100th edge, the wraparound;
  \<open>syncCB\<close> returns true at that edge only; and the state after it is the starting
  state but for the recorded time, so every later cycle repeats the pattern.
\<close>

theorem syncCB_cycle:
  assumes "cnt s = 0" "active s" "gun_out s" "actual_power s = 30" "length ts = 100"
  shows "map fst (fst (syncCB_run s ts)) = replicate 99 False @ [True] \<and>
         map snd (fst (syncCB_run s ts)) = replicate 29 True @ replicate 70 False @ [True] \<and>
         snd (syncCB_run s ts) = s\<lparr>last_period := ts ! 99\<rparr>"
proof -
  define a where "a = take 29 ts"
  define b where "b = take 69 (drop 30 ts)"
  have ts: "ts = a @ [ts ! 29] @ b @ [ts ! 99]"
  proof -
    have "ts = take 29 ts @ drop 29 ts" by simp
    also have "drop 29 ts = ts ! 29 # drop 30 ts"
      using assms(5) Cons_nth_drop_Suc [of 29 ts] by simp
    also have "drop 30 ts = take 69 (drop 30 ts) @ drop 99 ts"
      using append_take_drop_id [of 69 "drop 30 ts"] by simp
    also have "drop 99 ts = [ts ! 99]"
      using assms(5) Cons_nth_drop_Suc [of 99 ts] by simp
    finally show ?thesis by (simp add: a_def b_def)
  qed
  have la: "length a = 29" and lb: "length b = 69"
    using assms(5) by (simp_all add: a_def b_def)
  define s1 where "s1 = s\<lparr>cnt := 29\<rparr>"
  define s2 where "s2 = s\<lparr>cnt := 30, gun_out := False, active := False\<rparr>"
  define s3 where "s3 = s\<lparr>cnt := 99, gun_out := False, active := False\<rparr>"
  have r1: "syncCB_run s a = (replicate 29 (False, True), s1)"
    using run_on_phase [of s a] assms la by (simp add: s1_def)
  have r2: "syncCB s1 (ts ! 29) = (False, s2)"
    using syncCB_switch_off [of s1 "ts ! 29"] assms by (simp add: s1_def s2_def)
  have g2: "gun_out s2 = False"
    by (simp add: s2_def)
  have r3: "syncCB_run s2 b = (replicate 69 (False, False), s3)"
    using run_off_phase [of s2 b] assms lb by (simp add: s2_def s3_def)
  have r4: "syncCB s3 (ts ! 99) = (True, s\<lparr>last_period := ts ! 99\<rparr>)"
    using syncCB_wrap [of s3 "ts ! 99"] assms by (simp add: s3_def)
  have "syncCB_run s ts =
     (replicate 29 (False, True) @ [(False, False)] @ replicate 69 (False, False) @ [(True, True)],
      s\<lparr>last_period := ts ! 99\<rparr>)"
    by (subst ts) (simp add: syncCB_run_append r1 r2 r3 r4 g2 assms)
  moreover have "replicate 29 False @ False # replicate 69 False = replicate 99 False"
    by (auto simp: list_eq_iff_nth_eq nth_append nth_Cons')
  moreover have "False # replicate 69 False = replicate 70 False"
    by (auto simp: list_eq_iff_nth_eq nth_Cons')
  ultimately show ?thesis
    by simp
qed




lemma hotgun_boundary_state:
  "cnt hotgun_boundary = 0 \<and> active hotgun_boundary \<and> gun_out hotgun_boundary \<and>
   actual_power hotgun_boundary = 30"
  by (simp add: hotgun_boundary_def fixPower_def HOTGUN_init_def resetPID_def hotgun_new_def
      Let_def period_def)

lemma length_edge_times: "length edge_times = 100"
  by (simp add: edge_times_def)

theorem syncCB_cycle_witness:
  "cnt hotgun_boundary = 0 \<and> active hotgun_boundary \<and> gun_out hotgun_boundary \<and>
   actual_power hotgun_boundary = 30 \<and> length edge_times = 100 \<and>
   map fst (fst (syncCB_run hotgun_boundary edge_times)) = replicate 99 False @ [True] \<and>
   map snd (fst (syncCB_run hotgun_boundary edge_times)) =
     replicate 29 True @ replicate 70 False @ [True] \<and>
   snd (syncCB_run hotgun_boundary edge_times) =
     hotgun_boundary\<lparr>last_period := edge_times ! 99\<rparr>"
  using syncCB_cycle [of hotgun_boundary edge_times] hotgun_boundary_state length_edge_times
  by simp

subsection \<open>The thermal cutoff\<close>

lemma cmp_above:
  "unat (S :: u16) + 20 < 65536 \<Longrightarrow> (S + 20 < tmp) = (unat S + 20 < unat tmp)"
  by (simp add: word_less_nat_alt unat_word_ariths)

lemma cmp_below:
  "8 \<le> unat (S :: u16) \<Longrightarrow> (tmp < S - 8) = (unat tmp < unat S - 8)"
  by (simp add: word_less_nat_alt unat_sub word_le_nat_alt)

lemma keep_chill1:
  assumes "on s" "\<not> chill s" "8 \<le> unat (temp_set s)" "unat (temp_set s) + 20 < 65536"
    "unat (temp_set s) + 20 < unat tmp"
  shows "actual_power (keepTemp s tmp) = 0 \<and> chill (keepTemp s tmp)"
proof -
  have a: "temp_set s + 20 < tmp" using assms by (simp add: cmp_above)
  have b: "\<not> tmp < temp_set s - 8" using assms by (simp add: cmp_below)
  show ?thesis using assms(1,2) a b by (simp add: keepTemp_def Let_def)
qed

lemma keep_chill2:
  assumes "on c" "chill c" "8 \<le> unat (temp_set c)" "unat (temp_set c) - 8 \<le> unat tmp"
  shows "actual_power (keepTemp c tmp) = 0 \<and> chill (keepTemp c tmp)"
proof -
  have b: "\<not> tmp < temp_set c - 8" using assms by (simp add: cmp_below)
  show ?thesis using assms(1,2) b by (simp add: keepTemp_def Let_def)
qed


lemma keepTemp_resume:
  assumes "on c" "chill c" "tmp < temp_set c - 8"
  shows "keepTemp c tmp =
     (let s3 = resetPID (c\<lparr>h_temp := put (h_temp c) tmp, chill := False\<rparr>) (- 1);
          r = reqPower s3 (temp_set c) tmp;
          s5 = (snd r)\<lparr>HOTGUN_power := fst r\<rparr>;
          s6 = s5\<lparr>actual_power := ucast (constrain_long (fst r) 0 (ucast period))\<rparr>;
          s7 = s6\<lparr>h_power := put (h_power s6) (ucast (actual_power s6))\<rparr>
      in keep_fan s7 tmp)"
  using assms by (simp add: keepTemp_def Let_def split_beta resetPID_def)


lemma resetPID_fields:
  "temp_h0 (resetPID p (- 1)) = 0 \<and> temp_h1 (resetPID p (- 1)) = 0 \<and>
   \<not> pid_iterate (resetPID p (- 1)) \<and> i_summ (resetPID p (- 1)) = 0 \<and>
   power (resetPID p (- 1)) = 0 \<and> Kp (resetPID p (- 1)) = Kp p \<and> Ki (resetPID p (- 1)) = Ki p"
  by (simp add: resetPID_def Let_def word_sless_alt)

lemma reqPower_bootstrap:
  assumes "temp_h0 p = 0" "temp_h1 p = 0" "\<not> pid_iterate p" "i_summ p = 0"
  shows "temp_h0 (snd (reqPower p S t)) = 0 \<and> temp_h1 (snd (reqPower p S t)) = t \<and>
         pid_iterate (snd (reqPower p S t)) = (S - t <s 30) \<and>
         i_summ (snd (reqPower p S t)) = scast (S - t) \<and>
         power (snd (reqPower p S t)) = Kp p * scast (S - t) + Ki p * scast (S - t) \<and>
         fst (reqPower p S t) = signed_drop_bit 11 (power (snd (reqPower p S t)) + 1024)"
  using assms by (simp add: reqPower_def Let_def denominator_p_def)

lemma keep_fan_fields:
  "chill (keep_fan s t) = chill s \<and> actual_power (keep_fan s t) = actual_power s \<and>
   temp_h0 (keep_fan s t) = temp_h0 s \<and> temp_h1 (keep_fan s t) = temp_h1 s \<and>
   pid_iterate (keep_fan s t) = pid_iterate s \<and> i_summ (keep_fan s t) = i_summ s \<and>
   power (keep_fan s t) = power s"
  by (simp add: keep_fan_def)

lemma reqPower_chill: "chill (snd (reqPower p S t)) = chill p"
  by (simp add: reqPower_def Let_def)

lemma resetPID_chill: "chill (resetPID p x) = chill p"
  by (simp add: resetPID_def Let_def)

lemma keep_chill3:
  assumes "on c" "chill c" "8 \<le> unat (temp_set c)" "unat tmp < unat (temp_set c) - 8"
  shows "\<not> chill (keepTemp c tmp) \<and>
         temp_h0 (keepTemp c tmp) = 0 \<and> temp_h1 (keepTemp c tmp) = tmp \<and>
         pid_iterate (keepTemp c tmp) = (temp_set c - tmp <s 30) \<and>
         i_summ (keepTemp c tmp) = scast (temp_set c - tmp) \<and>
         power (keepTemp c tmp) = Kp c * scast (temp_set c - tmp) + Ki c * scast (temp_set c - tmp) \<and>
         actual_power (keepTemp c tmp) =
           ucast (constrain_long (signed_drop_bit 11 (power (keepTemp c tmp) + 1024)) 0 100)"
proof -
  have b: "tmp < temp_set c - 8" using assms by (simp add: cmp_below)
  define p where "p = resetPID (c\<lparr>h_temp := put (h_temp c) tmp, chill := False\<rparr>) (- 1)"
  define r where "r = reqPower p (temp_set c) tmp"
  have pf: "temp_h0 p = 0" "temp_h1 p = 0" "\<not> pid_iterate p" "i_summ p = 0"
    "Kp p = Kp c" "Ki p = Ki c" "\<not> chill p"
    using resetPID_fields [of "c\<lparr>h_temp := put (h_temp c) tmp, chill := False\<rparr>"]
    by (simp_all add: p_def resetPID_chill)
  note rb = reqPower_bootstrap [OF pf(1-4), of "temp_set c" tmp, folded r_def]
  have rc: "\<not> chill (snd r)"
    using pf(7) by (simp add: r_def reqPower_chill)
  have k: "keepTemp c tmp =
      keep_fan ((snd r)\<lparr>HOTGUN_power := fst r,
                  actual_power := ucast (constrain_long (fst r) 0 (ucast period)),
                  h_power := put (h_power (snd r)) (ucast (ucast (constrain_long (fst r) 0 (ucast period)) :: u8))\<rparr>) tmp"
    using keepTemp_resume [OF assms(1,2) b] by (simp add: Let_def p_def r_def)
  show ?thesis
    unfolding k using rb rc by (simp add: keep_fan_fields pf period_def)
qed


lemma reqPower_frame:
  "on (snd (reqPower p S t)) = on p \<and> temp_set (snd (reqPower p S t)) = temp_set p \<and>
   chill (snd (reqPower p S t)) = chill p"
  by (simp add: reqPower_def Let_def)

lemma resetPID_frame:
  "on (resetPID p x) = on p \<and> temp_set (resetPID p x) = temp_set p \<and>
   chill (resetPID p x) = chill p"
  by (simp add: resetPID_def Let_def)

lemma keep_fan_frame:
  "on (keep_fan s t) = on s \<and> temp_set (keep_fan s t) = temp_set s"
  by (simp add: keep_fan_def)

lemma keepTemp_on: "on (keepTemp s tmp) = on s"
  by (simp add: keepTemp_def Let_def split_beta keep_fan_frame reqPower_frame resetPID_frame)

lemma keepTemp_temp_set: "temp_set (keepTemp s tmp) = temp_set s"
  by (simp add: keepTemp_def Let_def split_beta keep_fan_frame reqPower_frame resetPID_frame)

lemma keep_no_chill:
  "on s \<Longrightarrow> \<not> chill s \<Longrightarrow> \<not> temp_set s + 20 < tmp \<Longrightarrow> \<not> chill (keepTemp s tmp)"
  by (simp add: keepTemp_def Let_def split_beta keep_fan_fields reqPower_frame)

lemma hotgun_regulating_state:
  "on hotgun_regulating \<and> \<not> chill hotgun_regulating \<and> temp_set hotgun_regulating = 600"
  by (simp add: hotgun_regulating_def switchPower_def setTemp_def HOTGUN_init_def resetPID_def
      hotgun_new_def Let_def)

lemma hotgun_chilling_state:
  "on hotgun_chilling \<and> chill hotgun_chilling \<and> temp_set hotgun_chilling = 600"
  unfolding hotgun_chilling_def
  using keep_chill1 [of hotgun_regulating 621] hotgun_regulating_state
  by (simp add: keepTemp_on keepTemp_temp_set)

text \<open>
  C1 (amended): for a setpoint \<open>S\<close> with \<open>8 \<le> S \<le> 65515\<close> (so that neither
  \<open>S + 20\<close> nor \<open>S - 8\<close> wraps in 16 bits): if the gun is on and not chilling and a
  sample strictly above \<open>S + 20\<close> arrives, \<open>keepTemp\<close> leaves \<open>actual_power = 0\<close>
  and the gun chilling; while it is on and chilling, a sample at or above \<open>S - 8\<close>
  leaves \<open>actual_power = 0\<close> and the gun chilling; a sample strictly below \<open>S - 8\<close>
  ends the chilling, and the PID state after the call is that of a reset followed by
  one bootstrap step, with \<open>actual_power\<close> the clamped power so computed.
\<close>

theorem keepTemp_thermal_cutoff:
  "(on s \<and> \<not> chill s \<and> 8 \<le> unat (temp_set s) \<and> unat (temp_set s) + 20 < 65536 \<and>
    unat (temp_set s) + 20 < unat tmp \<longrightarrow>
      actual_power (keepTemp s tmp) = 0 \<and> chill (keepTemp s tmp)) \<and>
   (on c \<and> chill c \<and> 8 \<le> unat (temp_set c) \<and> unat (temp_set c) - 8 \<le> unat tmp2 \<longrightarrow>
      actual_power (keepTemp c tmp2) = 0 \<and> chill (keepTemp c tmp2)) \<and>
   (on c \<and> chill c \<and> 8 \<le> unat (temp_set c) \<and> unat tmp3 < unat (temp_set c) - 8 \<longrightarrow>
      \<not> chill (keepTemp c tmp3) \<and>
      temp_h0 (keepTemp c tmp3) = 0 \<and> temp_h1 (keepTemp c tmp3) = tmp3 \<and>
      pid_iterate (keepTemp c tmp3) = (temp_set c - tmp3 <s 30) \<and>
      i_summ (keepTemp c tmp3) = scast (temp_set c - tmp3) \<and>
      power (keepTemp c tmp3) =
        Kp c * scast (temp_set c - tmp3) + Ki c * scast (temp_set c - tmp3) \<and>
      actual_power (keepTemp c tmp3) =
        ucast (constrain_long (signed_drop_bit 11 (power (keepTemp c tmp3) + 1024)) 0 100))"
  using keep_chill1 [of s tmp] keep_chill2 [of c tmp2] keep_chill3 [of c tmp3]
  by blast

theorem keepTemp_thermal_cutoff_witness:
  "on hotgun_regulating \<and> \<not> chill hotgun_regulating \<and> unat (temp_set hotgun_regulating) = 600 \<and>
   actual_power (keepTemp hotgun_regulating 621) = 0 \<and> chill (keepTemp hotgun_regulating 621) \<and>
   on hotgun_chilling \<and> chill hotgun_chilling \<and> unat (temp_set hotgun_chilling) = 600 \<and>
   actual_power (keepTemp hotgun_chilling 592) = 0 \<and> chill (keepTemp hotgun_chilling 592) \<and>
   \<not> chill (keepTemp hotgun_chilling 591) \<and> temp_h1 (keepTemp hotgun_chilling 591) = 591"
  using keepTemp_thermal_cutoff [of hotgun_regulating 621 hotgun_chilling 592 591]
    hotgun_regulating_state hotgun_chilling_state
  by simp

text \<open>
  C1 as stated fails at a sample of exactly \<open>S + 20\<close>: the gun on at setpoint 600
  and not chilling is still not chilling after \<open>keepTemp\<close> with the sample 620.
\<close>

theorem keepTemp_thermal_cutoff_counterexample:
  "on hotgun_regulating \<and> \<not> chill hotgun_regulating \<and> temp_set hotgun_regulating = 600 \<and>
   \<not> chill (keepTemp hotgun_regulating 620)"
  using keep_no_chill [of hotgun_regulating 620] hotgun_regulating_state
  by simp

subsection \<open>The sample history\<close>

lemma put_all_snoc: "put_all h (xs @ [x]) = put (put_all h xs) x"
  by (simp add: put_all_def)

lemma unat_of_nat_u8: "k \<le> 16 \<Longrightarrow> unat (of_nat k :: u8) = k"
  by (simp add: unat_of_nat)

lemma put_all_state:
  "length xs \<le> 16 \<Longrightarrow>
   len (put_all h xs) = of_nat (length xs) \<and> (\<forall>i<length xs. queue (put_all h xs) i = xs ! i)"
proof (induction xs rule: rev_induct)
  case Nil
  then show ?case by (simp add: put_all_def HISTORY_init_def)
next
  case (snoc x xs)
  then have IH: "len (put_all h xs) = of_nat (length xs)"
    "\<forall>i<length xs. queue (put_all h xs) i = xs ! i" by simp_all
  have l: "length xs < 16" using snoc.prems by simp
  have u: "unat (of_nat (length xs) :: u8) = length xs"
    using l by (simp add: unat_of_nat_u8)
  have lt: "(of_nat (length xs) :: u8) < H_LENGTH"
    using l u by (simp add: word_less_nat_alt H_LENGTH_def)
  show ?case
    using IH lt u by (auto simp: put_all_snoc put_def nth_append)
qed


lemma sum_loop_word:
  "foldl (\<lambda>sum i. sum + ucast (q i :: u16)) (0 :: u32) [0..<k] = of_nat (\<Sum>i<k. unat (q i))"
  by (induction k) simp_all

lemma sum_bound: "(\<Sum>i<k. unat (q i :: u16)) \<le> k * 65535"
proof (induction k)
  case 0
  then show ?case by simp
next
  case (Suc k)
  have "unat (q k) < 65536" using unsigned_less [of "q k", where 'a = nat] by simp
  with Suc show ?case by simp
qed

lemma sum_nth_list: "(\<Sum>i<length xs. unat (xs ! i :: u16)) = sum_list (map unat xs)"
  by (simp add: sum_list_sum_nth atLeast0LessThan)


lemma queue_sum_put_all:
  assumes "length xs \<le> 16"
  shows "queue_sum (put_all h xs) = of_nat (sum_list (map unat xs))"
proof -
  have st: "len (put_all h xs) = of_nat (length xs)"
    "\<forall>i<length xs. queue (put_all h xs) i = xs ! i"
    using put_all_state [OF assms, of h] by simp_all
  have u: "unat (len (put_all h xs)) = length xs"
    using assms st(1) by (simp add: unat_of_nat_u8)
  have "(\<Sum>i<length xs. unat (queue (put_all h xs) i)) = (\<Sum>i<length xs. unat (xs ! i))"
    using st(2) by (intro sum.cong) simp_all
  then show ?thesis
    by (simp add: queue_sum_def u sum_loop_word sum_nth_list)
qed

lemma unat_ucast_u8_u32: "unat (ucast (w :: u8) :: u32) = unat w"
proof -
  have "unat w < 2 ^ 8" using unsigned_less [of w, where 'a = nat] by simp
  then have "unat w < 2 ^ 32" by simp
  then show ?thesis by (simp add: unsigned_ucast_eq take_bit_nat_eq_self)
qed

lemma unat_ucast_u32_u16: "unat (w :: u32) < 65536 \<Longrightarrow> unat (ucast w :: u16) = unat w"
  by (simp add: unsigned_ucast_eq take_bit_nat_eq_self)

lemma sum_list_bound: "sum_list (map unat (xs :: u16 list)) \<le> length xs * 65535"
  using sum_bound [where k = "length xs" and q = "\<lambda>i. xs ! i"] by (simp add: sum_nth_list)

lemma average_put_all:
  assumes "2 \<le> length xs" "length xs \<le> 16"
  shows "unat (average (put_all h xs)) = mean_rounded xs"
proof -
  define n where "n = length xs"
  define S where "S = sum_list (map unat xs)"
  have n: "2 \<le> n" "n \<le> 16" using assms by (simp_all add: n_def)
  have Sb: "S \<le> n * 65535" unfolding S_def n_def by (rule sum_list_bound)
  have l: "len (put_all h xs) = of_nat n"
    using put_all_state [OF assms(2), of h] by (simp add: n_def)
  have ul: "unat (of_nat n :: u8) = n" using n by (simp add: unat_of_nat_u8)
  have l0: "(of_nat n :: u8) \<noteq> 0" "(of_nat n :: u8) \<noteq> 1"
    using ul n by (auto simp: word_unat_eq_iff)
  have u1: "unat (of_nat S + ucast (drop_bit 1 (of_nat n :: u8)) :: u32) = S + n div 2"
  proof -
    have "unat (ucast (drop_bit 1 (of_nat n :: u8)) :: u32) = n div 2"
      by (simp add: unat_ucast_u8_u32 unat_drop_bit_eq drop_bit_Suc unat_div ul)
    moreover have "unat (of_nat S :: u32) = S"
      using Sb n by (simp add: unat_of_nat)
    moreover have "S + n div 2 < 2 ^ 32" using Sb n by simp
    ultimately show ?thesis by (simp add: unat_word_ariths)
  qed
  have u3: "unat (ucast (of_nat n :: u8) :: u32) = n"
    by (simp only: unat_ucast_u8_u32 ul)
  have u2: "unat ((of_nat S + ucast (drop_bit 1 (of_nat n :: u8))) div ucast (of_nat n :: u8) :: u32)
              = (S + n div 2) div n"
    by (simp only: unat_div u1 u3)
  have b: "(S + n div 2) div n < 65536"
  proof -
    have "S + n div 2 < n * 65536" using Sb n by simp
    then show ?thesis
      using n by (simp add: div_less_iff_less_mult mult.commute)
  qed
  have av: "average (put_all h xs) =
      ucast ((of_nat S + ucast (drop_bit 1 (of_nat n :: u8))) div ucast (of_nat n :: u8) :: u32)"
    using l0
    by (simp only: average_def Let_def l queue_sum_put_all [OF assms(2)] S_def [symmetric] if_False)
  have "unat (average (put_all h xs)) = (S + n div 2) div n"
    unfolding av using b
    by (simp only: unat_ucast_u32_u16 u2)
  then show ?thesis by (simp add: mean_rounded_def S_def n_def)
qed


lemma disp_loop_word:
  "foldl (\<lambda>sum i. sum + (ucast (q i :: u16) - ucast (a :: u16)) * (ucast (q i) - ucast a))
     (0 :: u32) [0..<k]
     = of_int (\<Sum>i<k. (uint (q i) - uint a)\<^sup>2)"
  by (induction k) (simp_all add: Let_def power2_eq_square)

lemma sum_nth_map: "(\<Sum>i<length xs. f (xs ! i)) = sum_list (map f xs)"
proof -
  have "sum_list (map f xs) = (\<Sum>i = 0..<length (map f xs). map f xs ! i)"
    by (rule sum_list_sum_nth)
  also have "\<dots> = (\<Sum>i<length xs. f (xs ! i))"
    by (simp add: atLeast0LessThan)
  finally show ?thesis by simp
qed

lemma unat_of_int_u32: "unat (word_of_int z :: u32) = nat (z mod 2 ^ 32)"
  by (simp add: unsigned_of_int take_bit_eq_mod)

lemma dispersion_sum_put_all:
  assumes "2 \<le> length xs" "length xs \<le> 16"
  shows "unat (dispersion_sum (put_all h xs)) =
           nat (((\<Sum>x\<leftarrow>xs. (int (unat x) - int (mean_rounded xs))\<^sup>2) + 2 * int (length xs))
                  mod 2 ^ 32)"
proof -
  define n where "n = length xs"
  define H where "H = put_all h xs"
  have n: "2 \<le> n" "n \<le> 16" using assms by (simp_all add: n_def)
  have st: "len H = of_nat n" "\<forall>i<n. queue H i = xs ! i"
    using put_all_state [OF assms(2), of h] by (simp_all add: n_def H_def)
  have ul: "unat (of_nat n :: u8) = n" using n by (simp add: unat_of_nat_u8)
  have av: "uint (average H) = int (mean_rounded xs)"
    using average_put_all [OF assms, of h] by (simp add: H_def uint_nat)
  have "(\<Sum>i<n. (uint (queue H i) - uint (average H))\<^sup>2)
        = (\<Sum>i<n. (int (unat (xs ! i)) - int (mean_rounded xs))\<^sup>2)"
    using st(2) av by (intro sum.cong) simp_all
  also have "\<dots> = (\<Sum>x\<leftarrow>xs. (int (unat x) - int (mean_rounded xs))\<^sup>2)"
    unfolding n_def by (rule sum_nth_map)
  finally have loop: "foldl (\<lambda>sum i. sum + (ucast (queue H i) - ucast (average H)) *
        (ucast (queue H i) - ucast (average H))) (0 :: u32) [0..<n] = of_int (\<Sum>x\<leftarrow>xs. (int (unat x) - int (mean_rounded xs))\<^sup>2)"
    by (simp only: disp_loop_word)
  have two: "(ucast (push_bit 1 (ucast (of_nat n :: u8) :: u16)) :: u32) = of_int (2 * int n)"
  proof -
    have a: "unat (ucast (of_nat n :: u8) :: u16) = n"
      using n ul by (simp add: unsigned_ucast_eq take_bit_nat_eq_self)
    have b: "unat (push_bit 1 (ucast (of_nat n :: u8) :: u16)) = 2 * n"
      using n a by (simp add: unat_word_ariths)
    have "unat (ucast (push_bit 1 (ucast (of_nat n :: u8) :: u16)) :: u32) = 2 * n"
      using n b by (simp only: unsigned_ucast_eq) (simp add: take_bit_nat_eq_self)
    then have "(ucast (push_bit 1 (ucast (of_nat n :: u8) :: u16)) :: u32) = of_nat (2 * n)"
      using n by (simp only: word_unat_eq_iff unat_of_nat) simp
    then show ?thesis by simp
  qed
  have "dispersion_sum H =
      of_int ((\<Sum>x\<leftarrow>xs. (int (unat x) - int (mean_rounded xs))\<^sup>2) + 2 * int n)"
    by (simp only: dispersion_sum_def Let_def st(1) ul loop two of_int_add)
  then show ?thesis
    unfolding H_def n_def by (simp only: unat_of_int_u32)
qed


lemma dispersion_put_all:
  assumes "3 \<le> length xs" "length xs \<le> 16"
  shows "dispersion (put_all h xs) = biased_dispersion xs"
proof -
  have l: "len (put_all h xs) = of_nat (length xs)"
    using put_all_state [OF assms(2), of h] by simp
  have ul: "unat (of_nat (length xs) :: u8) = length xs"
    using assms by (simp add: unat_of_nat_u8)
  have ge: "\<not> (of_nat (length xs) :: u8) < 3"
    using assms ul by (simp add: word_less_nat_alt)
  have two: "2 \<le> length xs" using assms by simp
  show ?thesis
    using ge
    by (simp only: dispersion_def l ul dispersion_sum_put_all [OF two assms(2)]
        biased_dispersion_def biased_sum_def if_False)
qed

lemma dispersion_short:
  assumes "length xs < 3"
  shows "dispersion (put_all h xs) = 1000"
proof -
  have le: "length xs \<le> 16" using assms by simp
  have l: "len (put_all h xs) = of_nat (length xs)"
    using put_all_state [OF le, of h] by simp
  have ul: "unat (of_nat (length xs) :: u8) = length xs"
    using le by (simp add: unat_of_nat_u8)
  have "(of_nat (length xs) :: u8) < 3"
    using assms ul by (simp add: word_less_nat_alt)
  then show ?thesis
    by (simp add: dispersion_def l)
qed

lemma average_empty: "average (put_all h []) = 0"
  by (simp add: put_all_def HISTORY_init_def average_def)

lemma average_single: "average (put_all h [x]) = x"
  by (simp add: put_all_def HISTORY_init_def average_def put_def H_LENGTH_def)

lemma mean_rounded_nearest:
  assumes "0 < length xs"
  shows "\<bar>real (mean_rounded xs) - real (sum_list (map unat xs)) / real (length xs)\<bar> \<le> 1 / 2"
proof -
  define n where "n = length xs"
  define S where "S = sum_list (map unat xs)"
  define m where "m = (S + n div 2) div n"
  have n: "0 < n" using assms by (simp add: n_def)
  have lo: "m * n \<le> S + n div 2"
    unfolding m_def by simp
  have hi: "S + n div 2 < (m + 1) * n"
    unfolding m_def using n dividend_less_div_times [of n "S + n div 2"] by simp
  have lo': "2 * (m * n) \<le> 2 * S + n" using lo by linarith
  have hi': "2 * S + n \<le> 2 * (m * n) + 2 * n"
    using hi by (simp add: algebra_simps)
  define P where "P = real m * real n"
  have "real (2 * (m * n)) \<le> real (2 * S + n)" using lo' by (rule of_nat_mono)
  then have A: "2 * P \<le> 2 * real S + real n" by (simp add: P_def)
  have "real (2 * S + n) \<le> real (2 * (m * n) + 2 * n)" using hi' by (rule of_nat_mono)
  then have B: "2 * real S \<le> real n + 2 * P" by (simp add: P_def)
  have "\<bar>P - real S\<bar> \<le> real n / 2"
    using A B by linarith
  then have "\<bar>real m - real S / real n\<bar> \<le> 1 / 2"
    using n by (simp add: abs_le_iff field_simps P_def)
  then show ?thesis by (simp add: mean_rounded_def m_def S_def n_def)
qed

lemma biased_sum_examples:
  "mean_rounded [1, 2, 4] = 2 \<and> biased_sum [1, 2, 4] = 11 \<and> biased_sum [5, 5, 5] = 6 \<and>
   biased_sum [0, 0, 65535] = 2863224156"
  by (simp add: mean_rounded_def biased_sum_def)

lemma f32_quotient_examples:
  "f32_quotient 11 3 = 15379115 / 4194304 \<and> f32_quotient 6 3 = 2 \<and>
   f32_quotient 2863224156 3 = 954408000"
  by (simp add: f32_quotient_def f32_value_def f32_div_def f32_of_nat_def f32_round_ratio_def
      round_half_even_def Let_def)

lemma statistics_examples:
  "mean_rounded [1, 2, 4] = 2 \<and> biased_dispersion [1, 2, 4] = 15379115 / 4194304 \<and>
   biased_dispersion [0, 0, 65535] = 954408000 \<and>
   biased_dispersion [5, 5, 5] = 2 \<and> population_variance [5, 5, 5] = 0"
proof -
  have l: "length [a, b, c] = 3" for a b c :: u16
    by simp
  show ?thesis
    unfolding biased_dispersion_def l
    using biased_sum_examples f32_quotient_examples
    by (simp add: population_variance_def)
qed


text \<open>
  C9 (amended): for values put into a \<open>HISTORY\<close> after \<open>init\<close>: \<open>average\<close> is 0
  for none and the element itself for one; for 2 to 16 values it is the arithmetic
  mean rounded to the nearest integer, \<open>(sum + len / 2) / len\<close>.  \<open>dispersion\<close> is
  1000 for fewer than 3 values; for 3 to 16 values it is the single-precision
  quotient \<open>(float)sum / (float)len\<close> of the integer
  \<open>sum = (sum of (x - average)^2 + 2 * len) mod 2^32\<close>: up to the rounding of the
  float conversion and division, the mean squared distance from the rounded average
  plus a bias of 2, not the population variance.
\<close>

theorem history_statistics:
  "average (put_all h []) = 0 \<and> average (put_all h [x]) = x \<and>
   (2 \<le> length xs \<and> length xs \<le> 16 \<longrightarrow>
      unat (average (put_all h xs)) = mean_rounded xs \<and>
      \<bar>real (mean_rounded xs) - real (sum_list (map unat xs)) / real (length xs)\<bar> \<le> 1 / 2) \<and>
   (length ys < 3 \<longrightarrow> dispersion (put_all h ys) = 1000) \<and>
   (3 \<le> length xs \<and> length xs \<le> 16 \<longrightarrow> dispersion (put_all h xs) = biased_dispersion xs)"
proof (intro conjI impI)
  show "average (put_all h []) = 0" by (rule average_empty)
  show "average (put_all h [x]) = x" by (rule average_single)
  show "dispersion (put_all h ys) = 1000" if "length ys < 3"
    using that by (rule dispersion_short)
  show "dispersion (put_all h xs) = biased_dispersion xs" if "3 \<le> length xs \<and> length xs \<le> 16"
    using that by (intro dispersion_put_all) simp_all
  show "unat (average (put_all h xs)) = mean_rounded xs" if "2 \<le> length xs \<and> length xs \<le> 16"
    using that by (intro average_put_all) simp_all
  show "\<bar>real (mean_rounded xs) - real (sum_list (map unat xs)) / real (length xs)\<bar> \<le> 1 / 2"
    if "2 \<le> length xs \<and> length xs \<le> 16"
    using that by (intro mean_rounded_nearest) auto
qed


theorem history_statistics_witness:
  "2 \<le> length [1, 2, 4 :: u16] \<and> length [1, 2, 4 :: u16] \<le> 16 \<and> 3 \<le> length [1, 2, 4 :: u16] \<and>
   length [7, 9 :: u16] < 3 \<and>
   unat (average (put_all history_zero [1, 2, 4])) = 2 \<and>
   dispersion (put_all history_zero [7, 9]) = 1000 \<and>
   dispersion (put_all history_zero [1, 2, 4]) = 15379115 / 4194304 \<and>
   dispersion (put_all history_zero [0, 0, 65535]) = 954408000"
  using history_statistics [of history_zero 0 "[1, 2, 4]" "[7, 9]"]
    history_statistics [of history_zero 0 "[0, 0, 65535]" "[7, 9]"] statistics_examples
  by simp

text \<open>
  C9 as stated fails: three equal samples have population variance 0, and
  \<open>dispersion\<close> returns 2.
\<close>

theorem history_dispersion_counterexample:
  "dispersion (put_all history_zero [5, 5, 5]) = 2 \<and> population_variance [5, 5, 5] = 0"
  using dispersion_put_all [of "[5, 5, 5]" history_zero] statistics_examples
  by simp

end
